theory Spec2Isabelle
  imports Complex_Main
begin

section \<open>JavaScript values\<close>

text \<open>
  Quantities are JavaScript numbers, that is IEEE 754 doubles. A number is modelled as the
  real it denotes. The sums and differences of the position engine are taken exactly; the
  count round trip of \<^verbatim>\<open>setInventoryCount\<close>, which rounding decides, is modelled with
  each addition and subtraction rounded to the nearest double (subsection \<open>Double
  arithmetic\<close>). NaN and the infinities are outside this development.

  A calendar date is an ISO-8601 string \<^verbatim>\<open>YYYY-MM-DD\<close>. It is represented by its day
  number (days since 1970-01-01): comparing two such strings with \<^verbatim>\<open><=\<close> or with
  \<^verbatim>\<open>localeCompare\<close> is comparing their day numbers. A date field that is
  \<^verbatim>\<open>undefined\<close> or the empty string (the two falsy values a date field can hold) is
  \<open>None\<close>. Identifiers, names and timestamps stay strings.
\<close>

type_synonym number = real
type_synonym isoDate = int

text \<open>Truthiness of an optional string: \<^verbatim>\<open>undefined\<close> and \<^verbatim>\<open>''\<close> are falsy.\<close>

definition truthy :: "string option \<Rightarrow> bool" where
  "truthy v = (case v of None \<Rightarrow> False | Some s \<Rightarrow> s \<noteq> [])"

text \<open>\<^verbatim>\<open>a || b\<close> on an optional string and a string.\<close>

definition orString :: "string option \<Rightarrow> string \<Rightarrow> string" where
  "orString v d = (case v of None \<Rightarrow> d | Some s \<Rightarrow> if s = [] then d else s)"

text \<open>\<^verbatim>\<open>a || 0\<close> on an optional number.\<close>

definition orZero :: "number option \<Rightarrow> number" where
  "orZero v = (case v of None \<Rightarrow> 0 | Some q \<Rightarrow> q)"

section \<open>The collection store\<close>

text \<open>
  Modelled from the spec: the module \<^verbatim>\<open>../storage\<close> (the collections the services
  import) is not among the source files. The spec gives its contract: a generic keyed
  record store with \<^verbatim>\<open>getAll\<close>, \<^verbatim>\<open>getById\<close>, \<^verbatim>\<open>query(predicate)\<close>,
  \<^verbatim>\<open>create\<close>, \<^verbatim>\<open>update\<close> and \<^verbatim>\<open>delete\<close>. A collection is the list of its
  records in insertion order; the key of a record is its \<^verbatim>\<open>id\<close> field, passed as
  \<open>key\<close>.
\<close>

definition coll_getAll :: "'a list \<Rightarrow> 'a list" where
  "coll_getAll c = c"

definition coll_getById :: "('a \<Rightarrow> string) \<Rightarrow> 'a list \<Rightarrow> string \<Rightarrow> 'a option" where
  "coll_getById key c i = find (\<lambda>r. key r = i) c"

definition coll_query :: "'a list \<Rightarrow> ('a \<Rightarrow> bool) \<Rightarrow> 'a list" where
  "coll_query c p = filter p c"

definition coll_create :: "'a list \<Rightarrow> 'a \<Rightarrow> 'a list" where
  "coll_create c r = c @ [r]"

fun coll_replace :: "('a \<Rightarrow> string) \<Rightarrow> 'a list \<Rightarrow> string \<Rightarrow> 'a \<Rightarrow> 'a list" where
  "coll_replace key [] i r = []"
| "coll_replace key (x # xs) i r =
     (if key x = i then r # xs else x # coll_replace key xs i r)"

text \<open>\<^verbatim>\<open>update(id, record)\<close>: the new collection and the stored record, or
  \<^verbatim>\<open>undefined\<close> when no record has the id.\<close>

definition coll_update :: "('a \<Rightarrow> string) \<Rightarrow> 'a list \<Rightarrow> string \<Rightarrow> 'a \<Rightarrow> 'a list \<times> 'a option" where
  "coll_update key c i r =
     (case coll_getById key c i of
        None \<Rightarrow> (c, None)
      | Some _ \<Rightarrow> (coll_replace key c i r, Some r))"

section \<open>Entities\<close>

datatype orderStatus = Open | In_progress | Fulfilled | Closed | Voided

record orderLineItem =
  li_id :: string
  li_commodityId :: string
  li_commodityName :: "string option"
  li_quantity :: number
  li_unit :: string
  li_shippedQuantity :: "number option"
  li_receivedQuantity :: "number option"

text \<open>The fields of an order that the inventory service reads.\<close>

record purchaseOrder =
  po_id :: string
  po_orderNumber :: string
  po_status :: orderStatus
  po_supplierName :: "string option"
  po_facilityId :: "string option"
  po_lineItems :: "orderLineItem list"
  po_startDate :: "isoDate option"
  po_endDate :: "isoDate option"

record salesOrder =
  so_id :: string
  so_orderNumber :: string
  so_status :: orderStatus
  so_customerName :: "string option"
  so_facilityId :: "string option"
  so_lineItems :: "orderLineItem list"
  so_startDate :: "isoDate option"
  so_endDate :: "isoDate option"

record load =
  ld_id :: string
  ld_purchaseOrderId :: "string option"
  ld_salesOrderId :: "string option"
  ld_scheduledPickupDate :: "isoDate option"
  ld_actualPickupDate :: "isoDate option"
  ld_scheduledDeliveryDate :: "isoDate option"
  ld_actualDeliveryDate :: "isoDate option"

record commodity =
  cm_id :: string
  cm_name :: string
  cm_code :: string
  cm_defaultUnit :: string
  cm_isActive :: bool

datatype adjustmentType = Count | Damage | Transfer_in | Transfer_out | Other

record inventoryAdjustment =
  adj_id :: string
  adj_adjustmentNumber :: string
  adj_commodityId :: string
  adj_commodityCode :: "string option"
  adj_commodityName :: "string option"
  adj_locationId :: "string option"
  adj_locationName :: "string option"
  adj_adjustmentType :: adjustmentType
  adj_quantity :: number
  adj_unit :: string
  adj_reason :: "string option"
  adj_adjustmentDate :: isoDate
  adj_createdBy :: string
  adj_createdAt :: string
  adj_updatedAt :: string

datatype movementKind = Po_incoming | So_outgoing | Load_pickup | Load_delivery | Adjustment
datatype sourceType = FromPurchaseOrder | FromSalesOrder | FromLoad
datatype movementStatus = Pending | Completed | Cancelled

record inventoryMovement =
  mv_id :: string
  mv_type :: movementKind
  mv_commodityId :: string
  mv_commodityName :: "string option"
  mv_locationId :: "string option"
  mv_quantity :: number
  mv_unit :: string
  mv_expectedDate :: isoDate
  mv_sourceId :: string
  mv_sourceType :: sourceType
  mv_sourceNumber :: "string option"
  mv_partyName :: "string option"
  mv_status :: movementStatus

record position =
  pos_id :: string
  pos_commodityId :: string
  pos_commodityCode :: "string option"
  pos_commodityName :: "string option"
  pos_locationId :: "string option"
  pos_currentInventory :: number
  pos_incoming :: number
  pos_outgoing :: number
  pos_netPosition :: number
  pos_unit :: string

record availabilityCheck =
  av_available :: bool
  av_currentInventory :: number
  av_incoming :: number
  av_outgoing :: number
  av_currentPosition :: number
  av_projectedPosition :: number
  av_shortfall :: number

datatype pricingDirection = Buy | Sell

record pricingGroup =
  pg_id :: string
  pg_name :: string
  pg_direction :: pricingDirection
  pg_description :: "string option"
  pg_isDefault :: bool
  pg_isActive :: bool
  pg_createdBy :: string
  pg_createdAt :: string
  pg_updatedAt :: string

record priceList =
  pl_id :: string
  pl_pricingGroupId :: string
  pl_name :: string
  pl_effectiveDate :: isoDate
  pl_expirationDate :: "isoDate option"
  pl_notes :: "string option"
  pl_isActive :: bool
  pl_createdBy :: string
  pl_createdAt :: string
  pl_updatedAt :: string

text \<open>\<^verbatim>\<open>NewPriceListItem\<close>: one commodity price within a price list.\<close>

record priceListItem =
  pli_id :: string
  pli_priceListId :: string
  pli_commodityId :: string
  pli_price :: number
  pli_unit :: string
  pli_currency :: string
  pli_notes :: "string option"
  pli_createdBy :: string
  pli_createdAt :: string
  pli_updatedAt :: string

text \<open>The fields of an account that the pricing service reads.\<close>

record account =
  acc_id :: string
  acc_buyPricingGroupId :: "string option"
  acc_sellPricingGroupId :: "string option"

record commodityPrice =
  cp_commodityId :: string
  cp_commodityName :: string
  cp_commodityCode :: string
  cp_price :: number
  cp_unit :: string
  cp_currency :: string
  cp_priceListId :: string
  cp_priceListName :: string
  cp_pricingGroupId :: string
  cp_pricingGroupName :: string
  cp_effectiveDate :: isoDate
  cp_expirationDate :: "isoDate option"

text \<open>The collections the two services read and write.\<close>

record store =
  purchaseOrders :: "purchaseOrder list"
  salesOrders :: "salesOrder list"
  loads :: "load list"
  commodities :: "commodity list"
  inventoryAdjustments :: "inventoryAdjustment list"
  pricingGroups :: "pricingGroup list"
  priceLists :: "priceList list"
  priceListItems :: "priceListItem list"
  accounts :: "account list"

section \<open>Inventory service\<close>

datatype movementType = Pickup | Delivery

datatype order = PurchaseOrder purchaseOrder | SalesOrder salesOrder

fun order_endDate :: "order \<Rightarrow> isoDate option" where
  "order_endDate (PurchaseOrder po) = po_endDate po"
| "order_endDate (SalesOrder so) = so_endDate so"

fun order_startDate :: "order \<Rightarrow> isoDate option" where
  "order_startDate (PurchaseOrder po) = po_startDate po"
| "order_startDate (SalesOrder so) = so_startDate so"

text \<open>\<^verbatim>\<open>order.endDate || order.startDate || today\<close>; \<open>today\<close> is
  \<^verbatim>\<open>new Date().toISOString().split('T')[0]\<close>, read from the clock by the source.\<close>

definition orderFallbackDate :: "isoDate \<Rightarrow> order \<Rightarrow> isoDate" where
  "orderFallbackDate today ord =
     (case order_endDate ord of
        Some d \<Rightarrow> d
      | None \<Rightarrow> (case order_startDate ord of Some d \<Rightarrow> d | None \<Rightarrow> today))"

definition getExpectedDate :: "isoDate \<Rightarrow> load option \<Rightarrow> order \<Rightarrow> movementType \<Rightarrow> isoDate" where
  "getExpectedDate today ld ord movementType =
     (case ld of
        None \<Rightarrow> orderFallbackDate today ord
      | Some l \<Rightarrow>
          (case (if movementType = Pickup then ld_actualPickupDate l else None) of
             Some d \<Rightarrow> d
           | None \<Rightarrow>
          (case (if movementType = Delivery then ld_actualDeliveryDate l else None) of
             Some d \<Rightarrow> d
           | None \<Rightarrow>
          (case (if movementType = Pickup then ld_scheduledPickupDate l else None) of
             Some d \<Rightarrow> d
           | None \<Rightarrow>
          (case (if movementType = Delivery then ld_scheduledDeliveryDate l else None) of
             Some d \<Rightarrow> d
           | None \<Rightarrow> orderFallbackDate today ord)))))"

definition getCurrentInventory :: "store \<Rightarrow> string \<Rightarrow> string option \<Rightarrow> number" where
  "getCurrentInventory s commodityId locationId =
     (let adjustments = coll_query (inventoryAdjustments s) (\<lambda>adj.
            if adj_commodityId adj \<noteq> commodityId then False
            else if truthy locationId \<and> adj_locationId adj \<noteq> locationId then False
            else True)
      in foldl (\<lambda>sum adj. sum + adj_quantity adj) 0 adjustments)"

text \<open>\<^verbatim>\<open>byDate && expectedDate > byDate\<close>.\<close>

definition afterByDate :: "isoDate option \<Rightarrow> isoDate \<Rightarrow> bool" where
  "afterByDate byDate expectedDate =
     (case byDate of None \<Rightarrow> False | Some b \<Rightarrow> expectedDate > b)"

text \<open>The first element of a filtered array, or \<^verbatim>\<open>undefined\<close>.\<close>

definition firstOrUndefined :: "'a list \<Rightarrow> 'a option" where
  "firstOrUndefined xs = (case xs of [] \<Rightarrow> None | x # _ \<Rightarrow> Some x)"

text \<open>The body of the inner loop of \<^verbatim>\<open>calculateIncoming\<close>: one line item of one
  purchase order; \<^verbatim>\<open>continue\<close> leaves the accumulators as they are.\<close>

definition incomingItem ::
  "isoDate \<Rightarrow> load list \<Rightarrow> string \<Rightarrow> isoDate option \<Rightarrow> purchaseOrder \<Rightarrow>
   number \<times> inventoryMovement list \<Rightarrow> orderLineItem \<Rightarrow> number \<times> inventoryMovement list" where
  "incomingItem today lds commodityId byDate po acc item =
     (if li_commodityId item \<noteq> commodityId then acc
      else
        let ordered = li_quantity item;
            received = orZero (li_receivedQuantity item);
            pending = ordered - received
        in if pending \<le> 0 then acc
           else
             let linkedLoads = filter (\<lambda>l. ld_purchaseOrderId l = Some (po_id po)) lds;
                 linkedLoad = firstOrUndefined linkedLoads;
                 expectedDate = getExpectedDate today linkedLoad (PurchaseOrder po) Delivery
             in if afterByDate byDate expectedDate then acc
                else
                  (fst acc + pending,
                   snd acc @ [\<lparr> mv_id = ''po-'' @ po_id po @ ''-'' @ li_id item,
                                mv_type = Po_incoming,
                                mv_commodityId = li_commodityId item,
                                mv_commodityName = li_commodityName item,
                                mv_locationId = po_facilityId po,
                                mv_quantity = pending,
                                mv_unit = li_unit item,
                                mv_expectedDate = expectedDate,
                                mv_sourceId = po_id po,
                                mv_sourceType = FromPurchaseOrder,
                                mv_sourceNumber = Some (po_orderNumber po),
                                mv_partyName = po_supplierName po,
                                mv_status = Pending \<rparr>]))"

definition calculateIncoming ::
  "store \<Rightarrow> isoDate \<Rightarrow> string \<Rightarrow> string option \<Rightarrow> isoDate option \<Rightarrow>
   number \<times> inventoryMovement list" where
  "calculateIncoming s today commodityId locationId byDate =
     (let pos = coll_query (purchaseOrders s)
                  (\<lambda>po. po_status po \<noteq> Voided \<and> po_status po \<noteq> Closed);
          lds = coll_getAll (loads s)
      in foldl (\<lambda>acc po.
                  if truthy locationId \<and> po_facilityId po \<noteq> locationId then acc
                  else foldl (incomingItem today lds commodityId byDate po) acc (po_lineItems po))
           (0, []) pos)"

definition outgoingItem ::
  "isoDate \<Rightarrow> load list \<Rightarrow> string \<Rightarrow> isoDate option \<Rightarrow> salesOrder \<Rightarrow>
   number \<times> inventoryMovement list \<Rightarrow> orderLineItem \<Rightarrow> number \<times> inventoryMovement list" where
  "outgoingItem today lds commodityId byDate so acc item =
     (if li_commodityId item \<noteq> commodityId then acc
      else
        let ordered = li_quantity item;
            shipped = orZero (li_shippedQuantity item);
            pending = ordered - shipped
        in if pending \<le> 0 then acc
           else
             let linkedLoads = filter (\<lambda>l. ld_salesOrderId l = Some (so_id so)) lds;
                 linkedLoad = firstOrUndefined linkedLoads;
                 expectedDate = getExpectedDate today linkedLoad (SalesOrder so) Pickup
             in if afterByDate byDate expectedDate then acc
                else
                  (fst acc + pending,
                   snd acc @ [\<lparr> mv_id = ''so-'' @ so_id so @ ''-'' @ li_id item,
                                mv_type = So_outgoing,
                                mv_commodityId = li_commodityId item,
                                mv_commodityName = li_commodityName item,
                                mv_locationId = so_facilityId so,
                                mv_quantity = - pending,
                                mv_unit = li_unit item,
                                mv_expectedDate = expectedDate,
                                mv_sourceId = so_id so,
                                mv_sourceType = FromSalesOrder,
                                mv_sourceNumber = Some (so_orderNumber so),
                                mv_partyName = so_customerName so,
                                mv_status = Pending \<rparr>]))"

definition calculateOutgoing ::
  "store \<Rightarrow> isoDate \<Rightarrow> string \<Rightarrow> string option \<Rightarrow> isoDate option \<Rightarrow>
   number \<times> inventoryMovement list" where
  "calculateOutgoing s today commodityId locationId byDate =
     (let sos = coll_query (salesOrders s)
                  (\<lambda>so. so_status so \<noteq> Voided \<and> so_status so \<noteq> Closed);
          lds = coll_getAll (loads s)
      in foldl (\<lambda>acc so.
                  if truthy locationId \<and> so_facilityId so \<noteq> locationId then acc
                  else foldl (outgoingItem today lds commodityId byDate so) acc (so_lineItems so))
           (0, []) sos)"

definition getPosition :: "store \<Rightarrow> isoDate \<Rightarrow> string \<Rightarrow> string option \<Rightarrow> position option" where
  "getPosition s today commodityId locationId =
     (case coll_getById cm_id (commodities s) commodityId of
        None \<Rightarrow> None
      | Some commodity \<Rightarrow>
          let currentInventory = getCurrentInventory s commodityId locationId;
              incoming = fst (calculateIncoming s today commodityId locationId None);
              outgoing = fst (calculateOutgoing s today commodityId locationId None);
              netPosition = currentInventory + incoming - outgoing
          in Some \<lparr> pos_id = commodityId @ ''-'' @ orString locationId ''all'',
                     pos_commodityId = commodityId,
                     pos_commodityCode = Some (cm_code commodity),
                     pos_commodityName = Some (cm_name commodity),
                     pos_locationId = locationId,
                     pos_currentInventory = currentInventory,
                     pos_incoming = incoming,
                     pos_outgoing = outgoing,
                     pos_netPosition = netPosition,
                     pos_unit = orString (Some (cm_defaultUnit commodity)) ''LB'' \<rparr>)"

definition checkAvailability ::
  "store \<Rightarrow> isoDate \<Rightarrow> string \<Rightarrow> number \<Rightarrow> string option \<Rightarrow> isoDate option \<Rightarrow>
   availabilityCheck" where
  "checkAvailability s today commodityId requiredQuantity locationId byDate =
     (let currentInventory = getCurrentInventory s commodityId locationId;
          incoming = fst (calculateIncoming s today commodityId locationId byDate);
          outgoing = fst (calculateOutgoing s today commodityId locationId byDate);
          currentPosition = currentInventory + incoming - outgoing;
          projectedPosition = currentPosition - requiredQuantity;
          shortfall = (if projectedPosition < 0 then \<bar>projectedPosition\<bar> else 0)
      in \<lparr> av_available = (projectedPosition \<ge> 0),
            av_currentInventory = currentInventory,
            av_incoming = incoming,
            av_outgoing = outgoing,
            av_currentPosition = currentPosition,
            av_projectedPosition = projectedPosition,
            av_shortfall = shortfall \<rparr>)"

definition getMovements ::
  "store \<Rightarrow> isoDate \<Rightarrow> string \<Rightarrow> string option \<Rightarrow> isoDate option \<Rightarrow> isoDate option \<Rightarrow>
   inventoryMovement list" where
  "getMovements s today commodityId locationId startDate endDate =
     (let incomingMovements = snd (calculateIncoming s today commodityId locationId None);
          outgoingMovements = snd (calculateOutgoing s today commodityId locationId None);
          allMovements = incomingMovements @ outgoingMovements;
          allMovements = (case startDate of
                            None \<Rightarrow> allMovements
                          | Some sd \<Rightarrow> filter (\<lambda>m. mv_expectedDate m \<ge> sd) allMovements);
          allMovements = (case endDate of
                            None \<Rightarrow> allMovements
                          | Some ed \<Rightarrow> filter (\<lambda>m. mv_expectedDate m \<le> ed) allMovements)
      in sort_key mv_expectedDate allMovements)"

subsection \<open>The Date object of the position timeline\<close>

text \<open>
  A \<^verbatim>\<open>Date\<close> is its time value: milliseconds since 1970-01-01T00:00Z.
  \<^verbatim>\<open>new Date('YYYY-MM-DD')\<close> is midnight UTC of that day, and
  \<^verbatim>\<open>toISOString().split('T')[0]\<close> is the UTC day of the time value.
  \<^verbatim>\<open>getDate\<close> and \<^verbatim>\<open>setDate\<close> work on local time, so the host's time zone is
  a parameter: a standard offset from UTC and one daylight-saving period (one hour ahead
  of standard time from the instant \<open>tz_dstStart\<close> up to the instant \<open>tz_dstEnd\<close>).
  A zone without daylight saving has \<open>tz_dstStart = tz_dstEnd\<close>.
\<close>

type_synonym timeValue = int

definition msPerDay :: int where
  "msPerDay = 86400000"

definition msPerHour :: int where
  "msPerHour = 3600000"

record timeZone =
  tz_standardOffset :: int
  tz_dstStart :: timeValue
  tz_dstEnd :: timeValue

text \<open>The offset of local time from UTC at a UTC time value.\<close>

definition offsetAtUTC :: "timeZone \<Rightarrow> timeValue \<Rightarrow> int" where
  "offsetAtUTC tz t =
     tz_standardOffset tz + (if tz_dstStart tz \<le> t \<and> t < tz_dstEnd tz then msPerHour else 0)"

text \<open>The offset to apply to a local time value; a skipped or repeated local time takes
  the offset in force before the transition (ECMAScript, \<^verbatim>\<open>UTC(t)\<close>).\<close>

definition offsetAtLocal :: "timeZone \<Rightarrow> timeValue \<Rightarrow> int" where
  "offsetAtLocal tz lt =
     tz_standardOffset tz +
       (if tz_dstStart tz + tz_standardOffset tz + msPerHour \<le> lt \<and>
           lt < tz_dstEnd tz + tz_standardOffset tz + msPerHour
        then msPerHour else 0)"

definition localTime :: "timeZone \<Rightarrow> timeValue \<Rightarrow> timeValue" where
  "localTime tz t = t + offsetAtUTC tz t"

definition utcOfLocal :: "timeZone \<Rightarrow> timeValue \<Rightarrow> timeValue" where
  "utcOfLocal tz lt = lt - offsetAtLocal tz lt"

text \<open>\<^verbatim>\<open>new Date(isoString)\<close> for a date-only string.\<close>

definition newDate :: "isoDate \<Rightarrow> timeValue" where
  "newDate day = day * msPerDay"

text \<open>\<^verbatim>\<open>d.toISOString().split('T')[0]\<close>.\<close>

definition toISODate :: "timeValue \<Rightarrow> isoDate" where
  "toISODate t = t div msPerDay"

text \<open>\<^verbatim>\<open>d.setDate(d.getDate() + 1)\<close>: the same local time of day on the next local
  calendar day.\<close>

definition setDateNextDay :: "timeZone \<Rightarrow> timeValue \<Rightarrow> timeValue" where
  "setDateNextDay tz t = utcOfLocal tz (localTime tz t + msPerDay)"

subsection \<open>Position timeline\<close>

record positionTimelineEntry =
  te_date :: isoDate
  te_position :: number
  te_incoming :: number
  te_outgoing :: number
  te_movements :: "inventoryMovement list"

text \<open>\<^verbatim>\<open>movementsByDate\<close>: the \<^verbatim>\<open>Map\<close> filled by the \<^verbatim>\<open>forEach\<close>.\<close>

definition groupByDate :: "inventoryMovement list \<Rightarrow> (isoDate \<rightharpoonup> inventoryMovement list)" where
  "groupByDate movements =
     foldl (\<lambda>movementsByDate m.
              let existing = (case movementsByDate (mv_expectedDate m) of
                                None \<Rightarrow> [] | Some ms \<Rightarrow> ms)
              in movementsByDate(mv_expectedDate m \<mapsto> existing @ [m]))
       Map.empty movements"

definition dayIncoming :: "inventoryMovement list \<Rightarrow> number" where
  "dayIncoming dayMovements =
     foldl (\<lambda>sum m. sum + mv_quantity m) 0 (filter (\<lambda>m. mv_quantity m > 0) dayMovements)"

definition dayOutgoing :: "inventoryMovement list \<Rightarrow> number" where
  "dayOutgoing dayMovements =
     foldl (\<lambda>sum m. sum + \<bar>mv_quantity m\<bar>) 0 (filter (\<lambda>m. mv_quantity m < 0) dayMovements)"

text \<open>The \<^verbatim>\<open>for\<close> loop over the days: \<open>d\<close> is the loop's \<^verbatim>\<open>Date\<close>,
  \<open>runningPosition\<close> the accumulator, the result the entries pushed from here on.\<close>

function timelineLoop ::
  "timeZone \<Rightarrow> (isoDate \<rightharpoonup> inventoryMovement list) \<Rightarrow> timeValue \<Rightarrow> timeValue \<Rightarrow> number \<Rightarrow>
   positionTimelineEntry list" where
  "timelineLoop tz movementsByDate end d runningPosition =
     (if d \<le> end then
        let dateStr = toISODate d;
            dayMovements = (case movementsByDate dateStr of None \<Rightarrow> [] | Some ms \<Rightarrow> ms);
            dIncoming = dayIncoming dayMovements;
            dOutgoing = dayOutgoing dayMovements;
            runningPosition = runningPosition + (dIncoming - dOutgoing)
        in \<lparr> te_date = dateStr,
              te_position = runningPosition,
              te_incoming = dIncoming,
              te_outgoing = dOutgoing,
              te_movements = dayMovements \<rparr>
           # timelineLoop tz movementsByDate end (setDateNextDay tz d) runningPosition
      else [])"
  by pat_completeness auto
termination
  by (relation "measure (\<lambda>(tz, movementsByDate, end, d, runningPosition). nat (end - d + 1))")
     (auto simp add: setDateNextDay_def utcOfLocal_def localTime_def offsetAtLocal_def
        offsetAtUTC_def msPerDay_def msPerHour_def)

declare timelineLoop.simps [simp del]

definition getPositionTimeline ::
  "store \<Rightarrow> timeZone \<Rightarrow> isoDate \<Rightarrow> string \<Rightarrow> string option \<Rightarrow> isoDate \<Rightarrow> isoDate \<Rightarrow>
   positionTimelineEntry list" where
  "getPositionTimeline s tz today commodityId locationId startDate endDate =
     (let currentInventory = getCurrentInventory s commodityId locationId;
          movements = getMovements s today commodityId locationId (Some startDate) (Some endDate);
          movementsByDate = groupByDate movements;
          start = newDate startDate;
          end = newDate endDate
      in timelineLoop tz movementsByDate end start currentInventory)"

subsection \<open>Double arithmetic\<close>

text \<open>
  A finite double is \<open>m * 2 ^ e\<close> with an integer \<open>m\<close> of magnitude below \<open>2 ^ 53\<close> and
  \<open>- 1074 \<le> e\<close>. The result of a double operation is the exact result rounded to the
  nearest double, a tie going to the even \<open>m\<close>. An exact result too large for a double,
  which JavaScript makes \<^verbatim>\<open>Infinity\<close>, is outside the model: exponents are not bounded
  above.
\<close>

text \<open>The nearest integer, a tie going to the even one.\<close>

definition roundHalfEven :: "real \<Rightarrow> int" where
  "roundHalfEven y =
     (if y - of_int \<lfloor>y\<rfloor> < 1 / 2 then \<lfloor>y\<rfloor>
      else if y - of_int \<lfloor>y\<rfloor> > 1 / 2 then \<lfloor>y\<rfloor> + 1
      else if even \<lfloor>y\<rfloor> then \<lfloor>y\<rfloor> else \<lfloor>y\<rfloor> + 1)"

text \<open>Scaling a magnitude \<open>y * 2 ^ e\<close> until \<open>y\<close> is below \<open>2 ^ 53\<close> \<dots>\<close>

function normUp :: "real \<Rightarrow> int \<Rightarrow> real \<times> int" where
  "normUp y e = (if y \<ge> 2 ^ 53 then normUp (y / 2) (e + 1) else (y, e))"
  by pat_completeness auto
termination
proof (relation "measure (\<lambda>(y, e). nat \<lfloor>y\<rfloor>)")
  show "wf (measure (\<lambda>(y::real, e::int). nat \<lfloor>y\<rfloor>))"
    by simp
next
  fix y :: real and e :: int
  assume "2 ^ 53 \<le> y"
  then have y2: "2 \<le> y"
    by simp
  have "of_int \<lfloor>y / 2\<rfloor> \<le> y / 2"
    by (rule of_int_floor_le)
  moreover have "y - 1 < of_int \<lfloor>y\<rfloor>"
    by linarith
  ultimately have "(of_int \<lfloor>y / 2\<rfloor> :: real) < of_int \<lfloor>y\<rfloor>"
    using y2 by linarith
  then have lt: "\<lfloor>y / 2\<rfloor> < \<lfloor>y\<rfloor>"
    by simp
  have "0 < \<lfloor>y\<rfloor>"
    using y2 by simp
  with lt show "((y / 2, e + 1), (y, e)) \<in> measure (\<lambda>(y, e). nat \<lfloor>y\<rfloor>)"
    by simp
qed

declare normUp.simps [simp del]

text \<open>\<dots> and at least \<open>2 ^ 52\<close>, or the exponent is the least one, \<open>- 1074\<close> (a
  subnormal).\<close>

function normDown :: "real \<Rightarrow> int \<Rightarrow> real \<times> int" where
  "normDown y e = (if y < 2 ^ 52 \<and> e > - 1074 then normDown (y * 2) (e - 1) else (y, e))"
  by pat_completeness auto
termination
proof (relation "measure (\<lambda>(y, e). nat (e + 1074))")
  show "wf (measure (\<lambda>(y::real, e::int). nat (e + 1074)))"
    by simp
next
  fix y :: real and e :: int
  assume "y < 2 ^ 52 \<and> - 1074 < e"
  then have "- 1074 < e" ..
  then show "((y * 2, e - 1), (y, e)) \<in> measure (\<lambda>(y, e). nat (e + 1074))"
    by simp
qed

declare normDown.simps [simp del]

fun normDownFrom :: "real \<times> int \<Rightarrow> real \<times> int" where
  "normDownFrom (y, e) = normDown y e"

definition pow2 :: "int \<Rightarrow> real" where
  "pow2 e = (if e \<ge> 0 then 2 ^ nat e else 1 / 2 ^ nat (- e))"

text \<open>The scaled magnitude rounded to an integer, scaled back.\<close>

fun scaleBack :: "real \<times> int \<Rightarrow> real" where
  "scaleBack (y, e) = of_int (roundHalfEven y) * pow2 e"

definition roundMagnitude :: "real \<Rightarrow> real" where
  "roundMagnitude y = scaleBack (normDownFrom (normUp y 0))"

definition roundDouble :: "real \<Rightarrow> real" where
  "roundDouble x =
     (if x = 0 then 0 else if x > 0 then roundMagnitude x else - roundMagnitude (- x))"

text \<open>\<^verbatim>\<open>a + b\<close> and \<^verbatim>\<open>a - b\<close> on doubles.\<close>

definition doubleAdd :: "number \<Rightarrow> number \<Rightarrow> number" where
  "doubleAdd a b = roundDouble (a + b)"

definition doubleSub :: "number \<Rightarrow> number \<Rightarrow> number" where
  "doubleSub a b = roundDouble (a - b)"

text \<open>\<^verbatim>\<open>getCurrentInventory\<close> with the additions of its \<^verbatim>\<open>reduce\<close> rounded.\<close>

definition getCurrentInventory_double :: "store \<Rightarrow> string \<Rightarrow> string option \<Rightarrow> number" where
  "getCurrentInventory_double s commodityId locationId =
     (let adjustments = coll_query (inventoryAdjustments s) (\<lambda>adj.
            if adj_commodityId adj \<noteq> commodityId then False
            else if truthy locationId \<and> adj_locationId adj \<noteq> locationId then False
            else True)
      in foldl (\<lambda>sum adj. doubleAdd sum (adj_quantity adj)) 0 adjustments)"

subsection \<open>Inventory adjustments\<close>

definition isDigit :: "char \<Rightarrow> bool" where
  "isDigit c = (48 \<le> (of_char c :: nat) \<and> (of_char c :: nat) \<le> 57)"

text \<open>\<^verbatim>\<open>s.match(/ADJ-(\d+)/)\<close>: the digits captured by the leftmost match.\<close>

fun matchADJ :: "string \<Rightarrow> string option" where
  "matchADJ [] = None"
| "matchADJ (c # cs) =
     (let ds = takeWhile isDigit (drop 4 (c # cs))
      in if take 4 (c # cs) = ''ADJ-'' \<and> ds \<noteq> [] then Some ds else matchADJ cs)"

text \<open>\<^verbatim>\<open>parseInt(digits, 10)\<close> on a string of decimal digits.\<close>

definition parseInt :: "string \<Rightarrow> nat" where
  "parseInt ds = foldl (\<lambda>n c. 10 * n + ((of_char c :: nat) - 48)) 0 ds"

text \<open>\<^verbatim>\<open>n.toString()\<close> for a natural number.\<close>

function natToString :: "nat \<Rightarrow> string" where
  "natToString n =
     (if n < 10 then [char_of (48 + n)]
      else natToString (n div 10) @ [char_of (48 + n mod 10)])"
  by pat_completeness auto
termination
  by (relation "measure id") auto

declare natToString.simps [simp del]

definition padStart :: "nat \<Rightarrow> char \<Rightarrow> string \<Rightarrow> string" where
  "padStart n c str = replicate (n - length str) c @ str"

definition generateAdjustmentNumber :: "store \<Rightarrow> string" where
  "generateAdjustmentNumber s =
     (let adjustments = coll_getAll (inventoryAdjustments s);
          maxNum = foldl (\<lambda>mx adj.
                     case matchADJ (adj_adjustmentNumber adj) of
                       Some ds \<Rightarrow> (let num = parseInt ds in if num > mx then num else mx)
                     | None \<Rightarrow> mx) 0 adjustments
      in ''ADJ-'' @ padStart 4 (CHR ''0'') (natToString (maxNum + 1)))"

text \<open>The argument of \<^verbatim>\<open>createAdjustment\<close>: an adjustment without \<^verbatim>\<open>id\<close>,
  \<^verbatim>\<open>adjustmentNumber\<close> and the audit fields.\<close>

record adjustmentData =
  ad_commodityId :: string
  ad_commodityCode :: "string option"
  ad_commodityName :: "string option"
  ad_locationId :: "string option"
  ad_locationName :: "string option"
  ad_adjustmentType :: adjustmentType
  ad_quantity :: number
  ad_unit :: string
  ad_reason :: "string option"
  ad_adjustmentDate :: isoDate

text \<open>\<open>newId\<close> is the result of \<^verbatim>\<open>generateId('adj')\<close> (module \<^verbatim>\<open>../schema\<close>, not
  among the source files) and \<open>now\<close> the clock's \<^verbatim>\<open>new Date().toISOString()\<close>.\<close>

definition createAdjustment ::
  "store \<Rightarrow> string \<Rightarrow> string \<Rightarrow> adjustmentData \<Rightarrow> store \<times> inventoryAdjustment" where
  "createAdjustment s newId now data =
     (let adjustment = \<lparr> adj_id = newId,
                          adj_adjustmentNumber = generateAdjustmentNumber s,
                          adj_commodityId = ad_commodityId data,
                          adj_commodityCode = ad_commodityCode data,
                          adj_commodityName = ad_commodityName data,
                          adj_locationId = ad_locationId data,
                          adj_locationName = ad_locationName data,
                          adj_adjustmentType = ad_adjustmentType data,
                          adj_quantity = ad_quantity data,
                          adj_unit = ad_unit data,
                          adj_reason = ad_reason data,
                          adj_adjustmentDate = ad_adjustmentDate data,
                          adj_createdBy = ''Current User'',
                          adj_createdAt = now,
                          adj_updatedAt = now \<rparr>
      in (s\<lparr> inventoryAdjustments := coll_create (inventoryAdjustments s) adjustment \<rparr>,
          adjustment))"

text \<open>\<^verbatim>\<open>Partial<InventoryAdjustment>\<close>: \<open>None\<close> is a key the object does not have. A
  field that is optional in the adjustment can also be supplied as \<^verbatim>\<open>undefined\<close>
  (\<open>Some None\<close>).\<close>

record adjustmentUpdates =
  up_id :: "string option"
  up_adjustmentNumber :: "string option"
  up_commodityId :: "string option"
  up_commodityCode :: "string option option"
  up_commodityName :: "string option option"
  up_locationId :: "string option option"
  up_locationName :: "string option option"
  up_adjustmentType :: "adjustmentType option"
  up_quantity :: "number option"
  up_unit :: "string option"
  up_reason :: "string option option"
  up_adjustmentDate :: "isoDate option"
  up_createdBy :: "string option"
  up_createdAt :: "string option"
  up_updatedAt :: "string option"

text \<open>One field of \<^verbatim>\<open>{...existing, ...updates}\<close>.\<close>

definition spread :: "'a \<Rightarrow> 'a option \<Rightarrow> 'a" where
  "spread existing supplied = (case supplied of None \<Rightarrow> existing | Some v \<Rightarrow> v)"

definition updateAdjustment ::
  "store \<Rightarrow> string \<Rightarrow> string \<Rightarrow> adjustmentUpdates \<Rightarrow> store \<times> inventoryAdjustment option" where
  "updateAdjustment s now i updates =
     (case coll_getById adj_id (inventoryAdjustments s) i of
        None \<Rightarrow> (s, None)
      | Some existing \<Rightarrow>
          let updated = \<lparr> adj_id = i,
                          adj_adjustmentNumber = adj_adjustmentNumber existing,
                          adj_commodityId = spread (adj_commodityId existing) (up_commodityId updates),
                          adj_commodityCode = spread (adj_commodityCode existing) (up_commodityCode updates),
                          adj_commodityName = spread (adj_commodityName existing) (up_commodityName updates),
                          adj_locationId = spread (adj_locationId existing) (up_locationId updates),
                          adj_locationName = spread (adj_locationName existing) (up_locationName updates),
                          adj_adjustmentType = spread (adj_adjustmentType existing) (up_adjustmentType updates),
                          adj_quantity = spread (adj_quantity existing) (up_quantity updates),
                          adj_unit = spread (adj_unit existing) (up_unit updates),
                          adj_reason = spread (adj_reason existing) (up_reason updates),
                          adj_adjustmentDate = spread (adj_adjustmentDate existing) (up_adjustmentDate updates),
                          adj_createdBy = spread (adj_createdBy existing) (up_createdBy updates),
                          adj_createdAt = spread (adj_createdAt existing) (up_createdAt updates),
                          adj_updatedAt = now \<rparr>;
              r = coll_update adj_id (inventoryAdjustments s) i updated
          in (s\<lparr> inventoryAdjustments := fst r \<rparr>, snd r))"

text \<open>\<open>showNumber\<close> is the number-to-string conversion of the template literal. The
  current inventory and the subtraction are in double arithmetic.\<close>

definition setInventoryCount ::
  "store \<Rightarrow> string \<Rightarrow> string \<Rightarrow> isoDate \<Rightarrow> (number \<Rightarrow> string) \<Rightarrow>
   string \<Rightarrow> number \<Rightarrow> string option \<Rightarrow> string option \<Rightarrow> store \<times> inventoryAdjustment" where
  "setInventoryCount s newId now today showNumber commodityId newCount locationId reason =
     (let commodity = coll_getById cm_id (commodities s) commodityId;
          currentInventory = getCurrentInventory_double s commodityId locationId;
          adjustmentAmount = doubleSub newCount currentInventory
      in createAdjustment s newId now
           \<lparr> ad_commodityId = commodityId,
             ad_commodityCode = map_option cm_code commodity,
             ad_commodityName = map_option cm_name commodity,
             ad_locationId = locationId,
             ad_locationName = None,
             ad_adjustmentType = Count,
             ad_quantity = adjustmentAmount,
             ad_unit = orString (map_option cm_defaultUnit commodity) ''LB'',
             ad_reason = Some (orString reason (''Inventory count adjustment to '' @ showNumber newCount)),
             ad_adjustmentDate = today \<rparr>)"

section \<open>Pricing service\<close>

subsection \<open>Pricing groups\<close>

definition getDefaultPricingGroup :: "store \<Rightarrow> pricingDirection \<Rightarrow> pricingGroup option" where
  "getDefaultPricingGroup s direction =
     (let groups = coll_query (pricingGroups s)
                     (\<lambda>g. pg_direction g = direction \<and> pg_isDefault g = True)
      in firstOrUndefined groups)"

definition clearDefaultForDirection :: "store \<Rightarrow> string \<Rightarrow> pricingDirection \<Rightarrow> store" where
  "clearDefaultForDirection s now direction =
     (let defaultGroups = coll_query (pricingGroups s)
                            (\<lambda>g. pg_direction g = direction \<and> pg_isDefault g = True)
      in foldl (\<lambda>st grp.
                  st\<lparr> pricingGroups :=
                        fst (coll_update pg_id (pricingGroups st) (pg_id grp)
                               (grp\<lparr> pg_isDefault := False, pg_updatedAt := now \<rparr>)) \<rparr>)
           s defaultGroups)"

text \<open>The argument of \<^verbatim>\<open>createPricingGroup\<close>: a group without \<^verbatim>\<open>id\<close> and the
  audit fields.\<close>

record pricingGroupData =
  pgd_name :: string
  pgd_direction :: pricingDirection
  pgd_description :: "string option"
  pgd_isDefault :: bool
  pgd_isActive :: bool

text \<open>
  Modelled from the spec: \<^verbatim>\<open>createPricingGroup\<close> of the module \<^verbatim>\<open>../schema\<close> is not
  among the source files. It completes the data to a group: a generated \<^verbatim>\<open>id\<close>
  (\<open>newId\<close>) and the audit fields (\<open>createdBy\<close>, and \<open>now\<close> for both timestamps).
\<close>

definition schema_createPricingGroup ::
  "string \<Rightarrow> string \<Rightarrow> string \<Rightarrow> pricingGroupData \<Rightarrow> pricingGroup" where
  "schema_createPricingGroup newId createdBy now data =
     \<lparr> pg_id = newId,
       pg_name = pgd_name data,
       pg_direction = pgd_direction data,
       pg_description = pgd_description data,
       pg_isDefault = pgd_isDefault data,
       pg_isActive = pgd_isActive data,
       pg_createdBy = createdBy,
       pg_createdAt = now,
       pg_updatedAt = now \<rparr>"

definition createPricingGroup ::
  "store \<Rightarrow> string \<Rightarrow> string \<Rightarrow> string \<Rightarrow> pricingGroupData \<Rightarrow> store \<times> pricingGroup" where
  "createPricingGroup s newId createdBy now data =
     (let s1 = (if pgd_isDefault data then clearDefaultForDirection s now (pgd_direction data)
                else s);
          newGroup = schema_createPricingGroup newId createdBy now data
      in (s1\<lparr> pricingGroups := coll_create (pricingGroups s1) newGroup \<rparr>, newGroup))"

text \<open>\<^verbatim>\<open>Partial<PricingGroup>\<close>.\<close>

record pricingGroupUpdates =
  pgu_id :: "string option"
  pgu_name :: "string option"
  pgu_direction :: "pricingDirection option"
  pgu_description :: "string option option"
  pgu_isDefault :: "bool option"
  pgu_isActive :: "bool option"
  pgu_createdBy :: "string option"
  pgu_createdAt :: "string option"
  pgu_updatedAt :: "string option"

definition updatePricingGroup ::
  "store \<Rightarrow> string \<Rightarrow> string \<Rightarrow> pricingGroupUpdates \<Rightarrow> store \<times> pricingGroup option" where
  "updatePricingGroup s now i data =
     (case coll_getById pg_id (pricingGroups s) i of
        None \<Rightarrow> (s, None)
      | Some existing \<Rightarrow>
          let s1 = (if pgu_isDefault data = Some True \<and> \<not> pg_isDefault existing
                    then clearDefaultForDirection s now (pg_direction existing)
                    else s);
              updated = \<lparr> pg_id = i,
                          pg_name = spread (pg_name existing) (pgu_name data),
                          pg_direction = spread (pg_direction existing) (pgu_direction data),
                          pg_description = spread (pg_description existing) (pgu_description data),
                          pg_isDefault = spread (pg_isDefault existing) (pgu_isDefault data),
                          pg_isActive = spread (pg_isActive existing) (pgu_isActive data),
                          pg_createdBy = spread (pg_createdBy existing) (pgu_createdBy data),
                          pg_createdAt = spread (pg_createdAt existing) (pgu_createdAt data),
                          pg_updatedAt = now \<rparr>;
              r = coll_update pg_id (pricingGroups s1) i updated
          in (s1\<lparr> pricingGroups := fst r \<rparr>, snd r))"

text \<open>The object literal \<^verbatim>\<open>{ isDefault: true }\<close>.\<close>

definition onlyIsDefaultTrue :: pricingGroupUpdates where
  "onlyIsDefaultTrue =
     \<lparr> pgu_id = None, pgu_name = None, pgu_direction = None, pgu_description = None,
       pgu_isDefault = Some True, pgu_isActive = None, pgu_createdBy = None,
       pgu_createdAt = None, pgu_updatedAt = None \<rparr>"

definition setAsDefault :: "store \<Rightarrow> string \<Rightarrow> string \<Rightarrow> store \<times> pricingGroup option" where
  "setAsDefault s now i =
     (case coll_getById pg_id (pricingGroups s) i of
        None \<Rightarrow> (s, None)
      | Some grp \<Rightarrow>
          updatePricingGroup (clearDefaultForDirection s now (pg_direction grp)) now i
            onlyIsDefaultTrue)"

subsection \<open>Price lists\<close>

definition getActivePriceListsForDate :: "store \<Rightarrow> string \<Rightarrow> isoDate \<Rightarrow> priceList list" where
  "getActivePriceListsForDate s pricingGroupId date =
     (let candidates = coll_query (priceLists s)
                    (\<lambda>pl. pl_pricingGroupId pl = pricingGroupId \<and> pl_isActive pl = True)
      in filter (\<lambda>pl.
                   let isEffective = (pl_effectiveDate pl \<le> date);
                       isNotExpired = (case pl_expirationDate pl of
                                         None \<Rightarrow> True | Some e \<Rightarrow> e > date)
                   in isEffective \<and> isNotExpired) candidates)"

subsection \<open>Validation\<close>

text \<open>The day number of \<^verbatim>\<open>'9999-12-31'\<close>.\<close>

definition farFuture :: isoDate where
  "farFuture = 2932896"

definition datesOverlap :: "isoDate \<Rightarrow> isoDate option \<Rightarrow> isoDate \<Rightarrow> isoDate option \<Rightarrow> bool" where
  "datesOverlap start1 end1 start2 end2 =
     (let effectiveEnd1 = (case end1 of None \<Rightarrow> farFuture | Some e \<Rightarrow> e);
          effectiveEnd2 = (case end2 of None \<Rightarrow> farFuture | Some e \<Rightarrow> e)
      in start1 \<le> effectiveEnd2 \<and> start2 \<le> effectiveEnd1)"

record validation =
  valid :: bool
  conflictingPriceList :: "priceList option"

text \<open>\<^verbatim>\<open>item.id !== excludeItemId\<close> with an optional \<^verbatim>\<open>excludeItemId\<close>.\<close>

definition notExcluded :: "string option \<Rightarrow> priceListItem \<Rightarrow> bool" where
  "notExcluded excludeItemId item = (Some (pli_id item) \<noteq> excludeItemId)"

text \<open>The \<^verbatim>\<open>for\<close> loop over the lists of the group: the list it returns a conflict
  for, or \<open>None\<close> when it runs to its end.\<close>

fun scanOtherLists ::
  "store \<Rightarrow> priceList \<Rightarrow> string \<Rightarrow> string \<Rightarrow> string option \<Rightarrow> priceList list \<Rightarrow> priceList option" where
  "scanOtherLists s priceList priceListId commodityId excludeItemId [] = None"
| "scanOtherLists s priceList priceListId commodityId excludeItemId (otherList # rest) =
     (if pl_id otherList = priceListId
      then scanOtherLists s priceList priceListId commodityId excludeItemId rest
      else
        let hasOverlap = datesOverlap (pl_effectiveDate priceList) (pl_expirationDate priceList)
                           (pl_effectiveDate otherList) (pl_expirationDate otherList)
        in if hasOverlap then
             let items = coll_query (priceListItems s)
                           (\<lambda>item. pli_priceListId item = pl_id otherList);
                 conflictingItem = find (\<lambda>item. pli_commodityId item = commodityId \<and>
                                                notExcluded excludeItemId item) items
             in (case conflictingItem of
                   Some _ \<Rightarrow> Some otherList
                 | None \<Rightarrow> scanOtherLists s priceList priceListId commodityId excludeItemId rest)
           else scanOtherLists s priceList priceListId commodityId excludeItemId rest)"

definition validateCommodityUniqueness ::
  "store \<Rightarrow> string \<Rightarrow> string \<Rightarrow> string option \<Rightarrow> validation" where
  "validateCommodityUniqueness s priceListId commodityId excludeItemId =
     (case coll_getById pl_id (priceLists s) priceListId of
        None \<Rightarrow> \<lparr> valid = False, conflictingPriceList = None \<rparr>
      | Some priceList \<Rightarrow>
          let allListsInGroup = coll_query (priceLists s)
                                  (\<lambda>pl. pl_pricingGroupId pl = pl_pricingGroupId priceList)
          in (case scanOtherLists s priceList priceListId commodityId excludeItemId allListsInGroup of
                Some otherList \<Rightarrow> \<lparr> valid = False, conflictingPriceList = Some otherList \<rparr>
              | None \<Rightarrow>
                  let currentItems = coll_query (priceListItems s)
                                       (\<lambda>item. pli_priceListId item = priceListId \<and>
                                               pli_commodityId item = commodityId);
                      conflictInCurrent = find (notExcluded excludeItemId) currentItems
                  in (case conflictInCurrent of
                        Some _ \<Rightarrow> \<lparr> valid = False, conflictingPriceList = Some priceList \<rparr>
                      | None \<Rightarrow> \<lparr> valid = True, conflictingPriceList = None \<rparr>)))"

subsection \<open>Price list items\<close>

text \<open>The argument of \<^verbatim>\<open>createPriceListItem\<close>: an item without \<^verbatim>\<open>id\<close> and the
  audit fields.\<close>

record priceListItemData =
  pid_priceListId :: string
  pid_commodityId :: string
  pid_price :: number
  pid_unit :: string
  pid_currency :: string
  pid_notes :: "string option"

text \<open>
  Modelled from the spec: \<^verbatim>\<open>createNewPriceListItem\<close> of the module \<^verbatim>\<open>../schema\<close> is
  not among the source files. It completes the data to an item: a generated \<^verbatim>\<open>id\<close>
  (\<open>newId\<close>) and the audit fields.
\<close>

definition schema_createNewPriceListItem ::
  "string \<Rightarrow> string \<Rightarrow> string \<Rightarrow> priceListItemData \<Rightarrow> priceListItem" where
  "schema_createNewPriceListItem newId createdBy now data =
     \<lparr> pli_id = newId,
       pli_priceListId = pid_priceListId data,
       pli_commodityId = pid_commodityId data,
       pli_price = pid_price data,
       pli_unit = pid_unit data,
       pli_currency = pid_currency data,
       pli_notes = pid_notes data,
       pli_createdBy = createdBy,
       pli_createdAt = now,
       pli_updatedAt = now \<rparr>"

text \<open>The error thrown by \<^verbatim>\<open>createPriceListItem\<close>; its message names the conflicting
  price list when the validation found one.\<close>

datatype error = CommodityAlreadyPriced "string option"

definition createPriceListItem ::
  "store \<Rightarrow> string \<Rightarrow> string \<Rightarrow> string \<Rightarrow> priceListItemData \<Rightarrow> error + store \<times> priceListItem" where
  "createPriceListItem s newId createdBy now data =
     (let validation = validateCommodityUniqueness s (pid_priceListId data) (pid_commodityId data) None
      in if \<not> valid validation
         then Inl (CommodityAlreadyPriced (map_option pl_name (conflictingPriceList validation)))
         else
           let newItem = schema_createNewPriceListItem newId createdBy now data
           in Inr (s\<lparr> priceListItems := coll_create (priceListItems s) newItem \<rparr>, newItem))"

subsection \<open>Price resolution\<close>

text \<open>The \<^verbatim>\<open>for\<close> loop of \<^verbatim>\<open>findPriceInGroup\<close> over the sorted price lists.\<close>

fun firstPricedList ::
  "store \<Rightarrow> pricingGroup \<Rightarrow> commodity \<Rightarrow> priceList list \<Rightarrow> commodityPrice option" where
  "firstPricedList s grp commodity [] = None"
| "firstPricedList s grp commodity (priceList # rest) =
     (let items = coll_query (priceListItems s) (\<lambda>item. pli_priceListId item = pl_id priceList);
          item = find (\<lambda>i. pli_commodityId i = cm_id commodity) items
      in case item of
           Some it \<Rightarrow>
             Some \<lparr> cp_commodityId = cm_id commodity,
                    cp_commodityName = cm_name commodity,
                    cp_commodityCode = cm_code commodity,
                    cp_price = pli_price it,
                    cp_unit = pli_unit it,
                    cp_currency = pli_currency it,
                    cp_priceListId = pl_id priceList,
                    cp_priceListName = pl_name priceList,
                    cp_pricingGroupId = pg_id grp,
                    cp_pricingGroupName = pg_name grp,
                    cp_effectiveDate = pl_effectiveDate priceList,
                    cp_expirationDate = pl_expirationDate priceList \<rparr>
         | None \<Rightarrow> firstPricedList s grp commodity rest)"

text \<open>\<^verbatim>\<open>priceLists.sort((a, b) => b.effectiveDate.localeCompare(a.effectiveDate))\<close>: a
  stable sort, latest effective date first.\<close>

definition sortByEffectiveDateDesc :: "priceList list \<Rightarrow> priceList list" where
  "sortByEffectiveDateDesc candidates = sort_key (\<lambda>pl. - pl_effectiveDate pl) candidates"

definition findPriceInGroup :: "store \<Rightarrow> string \<Rightarrow> commodity \<Rightarrow> isoDate \<Rightarrow> commodityPrice option" where
  "findPriceInGroup s groupId commodity date =
     (case coll_getById pg_id (pricingGroups s) groupId of
        None \<Rightarrow> None
      | Some grp \<Rightarrow>
          let candidates = getActivePriceListsForDate s groupId date;
              sorted = sortByEffectiveDateDesc candidates
          in firstPricedList s grp commodity sorted)"

definition getPrice ::
  "store \<Rightarrow> string \<Rightarrow> string \<Rightarrow> pricingDirection \<Rightarrow> isoDate \<Rightarrow> commodityPrice option" where
  "getPrice s accountId commodityId direction date =
     (case coll_getById acc_id (accounts s) accountId of
        None \<Rightarrow> None
      | Some account \<Rightarrow>
          (case coll_getById cm_id (commodities s) commodityId of
             None \<Rightarrow> None
           | Some commodity \<Rightarrow>
               let assignedGroupId = (if direction = Buy then acc_buyPricingGroupId account
                                      else acc_sellPricingGroupId account);
                   price = (if truthy assignedGroupId
                            then findPriceInGroup s (orString assignedGroupId []) commodity date
                            else None)
               in (case price of
                     Some p \<Rightarrow> Some p
                   | None \<Rightarrow>
                       (case getDefaultPricingGroup s direction of
                          Some defaultGroup \<Rightarrow> findPriceInGroup s (pg_id defaultGroup) commodity date
                        | None \<Rightarrow> None))))"

section \<open>Predicates of the claims\<close>



text \<open>The expected date as the specification orders its sources: the load's actual date
  for the movement type, then its scheduled date, then the order's end date, then its start
  date, then today.\<close>

fun loadActualDate :: "movementType \<Rightarrow> load \<Rightarrow> isoDate option" where
  "loadActualDate Pickup l = ld_actualPickupDate l"
| "loadActualDate Delivery l = ld_actualDeliveryDate l"

fun loadScheduledDate :: "movementType \<Rightarrow> load \<Rightarrow> isoDate option" where
  "loadScheduledDate Pickup l = ld_scheduledPickupDate l"
| "loadScheduledDate Delivery l = ld_scheduledDeliveryDate l"

fun firstPresent :: "'a option list \<Rightarrow> 'a \<Rightarrow> 'a" where
  "firstPresent [] d = d"
| "firstPresent (None # rest) d = firstPresent rest d"
| "firstPresent (Some v # rest) d = v"

definition expectedDate_priority :: "isoDate \<Rightarrow> load option \<Rightarrow> order \<Rightarrow> movementType \<Rightarrow> isoDate" where
  "expectedDate_priority today ld ord movementType =
     firstPresent
       [Option.bind ld (loadActualDate movementType),
        Option.bind ld (loadScheduledDate movementType),
        order_endDate ord,
        order_startDate ord]
       today"

text \<open>A price list is a candidate for a date when it is active, effective on or before the
  date, and has no expiration date or one after the date.\<close>

definition currentlyEffective :: "isoDate \<Rightarrow> priceList \<Rightarrow> bool" where
  "currentlyEffective date pl =
     (pl_isActive pl \<and> pl_effectiveDate pl \<le> date \<and>
      (case pl_expirationDate pl of None \<Rightarrow> True | Some e \<Rightarrow> e > date))"

text \<open>The first item of a price list for a commodity.\<close>

definition itemFor :: "store \<Rightarrow> string \<Rightarrow> string \<Rightarrow> priceListItem option" where
  "itemFor s priceListId commodityId =
     find (\<lambda>i. pli_priceListId i = priceListId \<and> pli_commodityId i = commodityId)
       (priceListItems s)"

text \<open>The price lists of a group that are candidates for the date and contain an item for
  the commodity.\<close>

definition candidateLists :: "store \<Rightarrow> string \<Rightarrow> isoDate \<Rightarrow> string \<Rightarrow> priceList list" where
  "candidateLists s groupId date commodityId =
     filter (\<lambda>pl. pl_pricingGroupId pl = groupId \<and> currentlyEffective date pl \<and>
                  itemFor s (pl_id pl) commodityId \<noteq> None) (priceLists s)"

text \<open>The overlap rule of the specification: \<open>s1 \<le> e2_effective\<close> and
  \<open>s2 \<le> e1_effective\<close>, an absent end being 9999-12-31.\<close>

definition effectiveEnd :: "isoDate option \<Rightarrow> isoDate" where
  "effectiveEnd e = (case e of None \<Rightarrow> farFuture | Some d \<Rightarrow> d)"

definition rangesOverlap :: "priceList \<Rightarrow> priceList \<Rightarrow> bool" where
  "rangesOverlap pl1 pl2 =
     (pl_effectiveDate pl1 \<le> effectiveEnd (pl_expirationDate pl2) \<and>
      pl_effectiveDate pl2 \<le> effectiveEnd (pl_expirationDate pl1))"

text \<open>A price list (by id) already contains an item for the commodity.\<close>

definition hasItemFor :: "store \<Rightarrow> string \<Rightarrow> string \<Rightarrow> bool" where
  "hasItemFor s priceListId commodityId =
     list_ex (\<lambda>item. pli_priceListId item = priceListId \<and> pli_commodityId item = commodityId)
       (priceListItems s)"

text \<open>Some other price list of the target's pricing group overlaps the target's date range
  and already contains an item for the commodity.\<close>

definition conflictInOtherList :: "store \<Rightarrow> priceList \<Rightarrow> string \<Rightarrow> bool" where
  "conflictInOtherList s target commodityId =
     list_ex (\<lambda>other. pl_pricingGroupId other = pl_pricingGroupId target \<and>
                      pl_id other \<noteq> pl_id target \<and>
                      rangesOverlap target other \<and>
                      hasItemFor s (pl_id other) commodityId)
       (priceLists s)"

text \<open>The number of pricing groups of a direction that are flagged default.\<close>

definition defaultCount :: "store \<Rightarrow> pricingDirection \<Rightarrow> nat" where
  "defaultCount s d =
     length (filter (\<lambda>g. pg_direction g = d \<and> pg_isDefault g) (pricingGroups s))"

text \<open>The running position of a timeline: every entry's position is the position before
  it (the baseline for the first entry) plus that entry's incoming minus its outgoing.\<close>

fun runningFrom :: "number \<Rightarrow> positionTimelineEntry list \<Rightarrow> bool" where
  "runningFrom before [] = True"
| "runningFrom before (e # es) =
     (te_position e = before + (te_incoming e - te_outgoing e) \<and> runningFrom (te_position e) es)"

text \<open>At most one default pricing group per direction.\<close>

definition defaultUnique :: "store \<Rightarrow> bool" where
  "defaultUnique s = (defaultCount s Buy \<le> 1 \<and> defaultCount s Sell \<le> 1)"

text \<open>The store is keyed: no two pricing groups share an id.\<close>

definition distinctGroupIds :: "store \<Rightarrow> bool" where
  "distinctGroupIds s = distinct (map pg_id (pricingGroups s))"

text \<open>What \<^verbatim>\<open>clearDefaultForDirection\<close> writes for a group.\<close>

definition clearedGroup :: "string \<Rightarrow> pricingGroup \<Rightarrow> pricingGroup" where
  "clearedGroup now g = g\<lparr> pg_isDefault := False, pg_updatedAt := now \<rparr>"

section \<open>Example data\<close>

text \<open>The scenario of the specification: commodity HMS1 with 1000 LB on hand, one open
  purchase order with 500 LB pending and one open sales order with 200 LB pending.\<close>

definition exCommodity :: commodity where
  "exCommodity = \<lparr> cm_id = ''HMS1'', cm_name = ''Heavy Melting Steel'', cm_code = ''HMS1'',
                    cm_defaultUnit = ''LB'', cm_isActive = True \<rparr>"

definition exAdjustment :: inventoryAdjustment where
  "exAdjustment =
     \<lparr> adj_id = ''adj-1'', adj_adjustmentNumber = ''ADJ-0001'',
       adj_commodityId = ''HMS1'', adj_commodityCode = Some ''HMS1'', adj_commodityName = None,
       adj_locationId = None, adj_locationName = None, adj_adjustmentType = Count,
       adj_quantity = 1000, adj_unit = ''LB'', adj_reason = None, adj_adjustmentDate = 20000,
       adj_createdBy = ''Current User'', adj_createdAt = ''2024-10-04T08:00:00.000Z'',
       adj_updatedAt = ''2024-10-04T08:00:00.000Z'' \<rparr>"

definition exStore :: store where
  "exStore =
     \<lparr> purchaseOrders =
         [\<lparr> po_id = ''po-1'', po_orderNumber = ''PO-0001'', po_status = Open,
            po_supplierName = None, po_facilityId = None,
            po_lineItems =
              [\<lparr> li_id = ''i1'', li_commodityId = ''HMS1'', li_commodityName = None,
                 li_quantity = 500, li_unit = ''LB'', li_shippedQuantity = None,
                 li_receivedQuantity = None \<rparr>],
            po_startDate = Some 20001, po_endDate = None \<rparr>],
       salesOrders =
         [\<lparr> so_id = ''so-1'', so_orderNumber = ''SO-0001'', so_status = Open,
            so_customerName = None, so_facilityId = None,
            so_lineItems =
              [\<lparr> li_id = ''i2'', li_commodityId = ''HMS1'', li_commodityName = None,
                 li_quantity = 200, li_unit = ''LB'', li_shippedQuantity = None,
                 li_receivedQuantity = None \<rparr>],
            so_startDate = Some 20003, so_endDate = None \<rparr>],
       loads = [],
       commodities = [exCommodity],
       inventoryAdjustments = [exAdjustment],
       pricingGroups = [],
       priceLists = [],
       priceListItems = [],
       accounts = [] \<rparr>"

text \<open>A load with an actual pickup but no actual delivery, and an order with both
  dates.\<close>

definition exLoad :: load where
  "exLoad = \<lparr> ld_id = ''ld-1'', ld_purchaseOrderId = Some ''po-1'', ld_salesOrderId = None,
               ld_scheduledPickupDate = Some 19998, ld_actualPickupDate = Some 19999,
               ld_scheduledDeliveryDate = Some 20002, ld_actualDeliveryDate = None \<rparr>"

definition exOrder :: order where
  "exOrder = PurchaseOrder
     \<lparr> po_id = ''po-1'', po_orderNumber = ''PO-0001'', po_status = Open,
       po_supplierName = None, po_facilityId = None, po_lineItems = [],
       po_startDate = Some 20001, po_endDate = Some 20010 \<rparr>"

text \<open>An update that tries to change \<^verbatim>\<open>id\<close>, \<^verbatim>\<open>adjustmentNumber\<close> and
  \<^verbatim>\<open>updatedAt\<close> along with three other fields.\<close>

definition exUpdates :: adjustmentUpdates where
  "exUpdates =
     \<lparr> up_id = Some ''adj-777'', up_adjustmentNumber = Some ''ADJ-9999'',
       up_commodityId = None, up_commodityCode = None, up_commodityName = None,
       up_locationId = Some (Some ''yard-2''), up_locationName = None,
       up_adjustmentType = Some Damage, up_quantity = Some (-25), up_unit = None,
       up_reason = None, up_adjustmentDate = None, up_createdBy = None, up_createdAt = None,
       up_updatedAt = Some ''1999-01-01T00:00:00.000Z'' \<rparr>"

text \<open>Pricing data: an account assigned to a buy group without price lists, the default
  buy group with two price lists (2024-01-01 to 2024-06-01, and open-ended from
  2024-05-01), the first holding bare bright copper at 3.50, and the default sell group.\<close>

definition exCopper :: commodity where
  "exCopper = \<lparr> cm_id = ''CU-BARE'', cm_name = ''Bare Bright Copper'', cm_code = ''CU-BARE'',
                 cm_defaultUnit = ''LB'', cm_isActive = True \<rparr>"

definition exGroupA :: pricingGroup where
  "exGroupA = \<lparr> pg_id = ''grp-a'', pg_name = ''Preferred Suppliers'', pg_direction = Buy,
                 pg_description = None, pg_isDefault = False, pg_isActive = True,
                 pg_createdBy = ''Current User'', pg_createdAt = ''2024-01-01T00:00:00.000Z'',
                 pg_updatedAt = ''2024-01-01T00:00:00.000Z'' \<rparr>"

definition exGroupB :: pricingGroup where
  "exGroupB = \<lparr> pg_id = ''grp-b'', pg_name = ''Standard Supplier Pricing'', pg_direction = Buy,
                 pg_description = None, pg_isDefault = True, pg_isActive = True,
                 pg_createdBy = ''Current User'', pg_createdAt = ''2024-01-01T00:00:00.000Z'',
                 pg_updatedAt = ''2024-01-01T00:00:00.000Z'' \<rparr>"

definition exGroupS :: pricingGroup where
  "exGroupS = \<lparr> pg_id = ''grp-s'', pg_name = ''Standard Customer Pricing'', pg_direction = Sell,
                 pg_description = None, pg_isDefault = True, pg_isActive = True,
                 pg_createdBy = ''Current User'', pg_createdAt = ''2024-01-01T00:00:00.000Z'',
                 pg_updatedAt = ''2024-01-01T00:00:00.000Z'' \<rparr>"

definition exListA :: priceList where
  "exListA = \<lparr> pl_id = ''pl-a'', pl_pricingGroupId = ''grp-b'', pl_name = ''First half 2024'',
                pl_effectiveDate = 19723, pl_expirationDate = Some 19875, pl_notes = None,
                pl_isActive = True, pl_createdBy = ''Current User'',
                pl_createdAt = ''2024-01-01T00:00:00.000Z'',
                pl_updatedAt = ''2024-01-01T00:00:00.000Z'' \<rparr>"

definition exListB :: priceList where
  "exListB = \<lparr> pl_id = ''pl-b'', pl_pricingGroupId = ''grp-b'', pl_name = ''From May 2024'',
                pl_effectiveDate = 19844, pl_expirationDate = None, pl_notes = None,
                pl_isActive = True, pl_createdBy = ''Current User'',
                pl_createdAt = ''2024-04-15T00:00:00.000Z'',
                pl_updatedAt = ''2024-04-15T00:00:00.000Z'' \<rparr>"

definition exItemA :: priceListItem where
  "exItemA = \<lparr> pli_id = ''item-a'', pli_priceListId = ''pl-a'', pli_commodityId = ''CU-BARE'',
                pli_price = 3.5, pli_unit = ''LB'', pli_currency = ''USD'', pli_notes = None,
                pli_createdBy = ''Current User'', pli_createdAt = ''2024-01-01T00:00:00.000Z'',
                pli_updatedAt = ''2024-01-01T00:00:00.000Z'' \<rparr>"

definition exItemB :: priceListItem where
  "exItemB = \<lparr> pli_id = ''item-b'', pli_priceListId = ''pl-b'', pli_commodityId = ''CU-BARE'',
                pli_price = 3.75, pli_unit = ''LB'', pli_currency = ''USD'', pli_notes = None,
                pli_createdBy = ''Current User'', pli_createdAt = ''2024-04-15T00:00:00.000Z'',
                pli_updatedAt = ''2024-04-15T00:00:00.000Z'' \<rparr>"

definition exAccount :: account where
  "exAccount = \<lparr> acc_id = ''acc-1'', acc_buyPricingGroupId = Some ''grp-a'',
                  acc_sellPricingGroupId = None \<rparr>"

definition exAccount2 :: account where
  "exAccount2 = \<lparr> acc_id = ''acc-2'', acc_buyPricingGroupId = Some ''grp-b'',
                   acc_sellPricingGroupId = None \<rparr>"

definition exPricingStore :: store where
  "exPricingStore =
     \<lparr> purchaseOrders = [], salesOrders = [], loads = [], commodities = [exCopper],
       inventoryAdjustments = [],
       pricingGroups = [exGroupA, exGroupB, exGroupS],
       priceLists = [exListA, exListB],
       priceListItems = [exItemA],
       accounts = [exAccount, exAccount2] \<rparr>"

text \<open>The same store with the copper price also in the second list.\<close>

definition exPricingStore2 :: store where
  "exPricingStore2 = exPricingStore\<lparr> priceListItems := [exItemA, exItemB] \<rparr>"

definition exItemData :: "string \<Rightarrow> priceListItemData" where
  "exItemData commodityId =
     \<lparr> pid_priceListId = ''pl-b'', pid_commodityId = commodityId, pid_price = 3.75,
       pid_unit = ''LB'', pid_currency = ''USD'', pid_notes = None \<rparr>"

text \<open>A store whose only pricing group is a default buy group that is not active.\<close>

definition exRetiredGroup :: pricingGroup where
  "exRetiredGroup = exGroupB\<lparr> pg_isActive := False \<rparr>"

definition exRetiredStore :: store where
  "exRetiredStore = exPricingStore\<lparr> pricingGroups := [exRetiredGroup] \<rparr>"

text \<open>The object literal \<^verbatim>\<open>{ direction: 'sell' }\<close>.\<close>

definition exChangeDirection :: pricingGroupUpdates where
  "exChangeDirection =
     \<lparr> pgu_id = None, pgu_name = None, pgu_direction = Some Sell, pgu_description = None,
       pgu_isDefault = None, pgu_isActive = None, pgu_createdBy = None,
       pgu_createdAt = None, pgu_updatedAt = None \<rparr>"

text \<open>US Eastern time in 2024: five hours behind UTC, daylight saving from
  2024-03-10T07:00Z to 2024-11-03T06:00Z.\<close>

definition newYork :: timeZone where
  "newYork = \<lparr> tz_standardOffset = - 18000000,
                tz_dstStart = 1710054000000,
                tz_dstEnd = 1730613600000 \<rparr>"

text \<open>A zone on UTC all year.\<close>

definition utcZone :: timeZone where
  "utcZone = \<lparr> tz_standardOffset = 0, tz_dstStart = 0, tz_dstEnd = 0 \<rparr>"

text \<open>The example store with the purchase order expected on 2024-03-10 (day 19792).\<close>

definition exMarchStore :: store where
  "exMarchStore =
     exStore\<lparr> purchaseOrders :=
       [\<lparr> po_id = ''po-1'', po_orderNumber = ''PO-0001'', po_status = Open,
          po_supplierName = None, po_facilityId = None,
          po_lineItems =
            [\<lparr> li_id = ''i1'', li_commodityId = ''HMS1'', li_commodityName = None,
               li_quantity = 500, li_unit = ''LB'', li_shippedQuantity = None,
               li_receivedQuantity = None \<rparr>],
          po_startDate = Some 19792, po_endDate = None \<rparr>] \<rparr>"

text \<open>The doubles that the literals \<^verbatim>\<open>0.1\<close> and \<^verbatim>\<open>0.9\<close> denote, and a ledger of two
  adjustments of \<^verbatim>\<open>0.1\<close> for HMS1.\<close>

definition exTenth :: number where
  "exTenth = 3602879701896397 / 36028797018963968"

definition exNineTenths :: number where
  "exNineTenths = 8106479329266893 / 9007199254740992"

definition exTenthsStore :: store where
  "exTenthsStore =
     exStore\<lparr> inventoryAdjustments :=
       [exAdjustment\<lparr> adj_quantity := exTenth \<rparr>,
        exAdjustment\<lparr> adj_id := ''adj-2'', adj_adjustmentNumber := ''ADJ-0002'',
                      adj_quantity := exTenth \<rparr>] \<rparr>"

section \<open>Facts about the collection store\<close>

lemma getById_key: "coll_getById key c i = Some e \<Longrightarrow> key e = i"
  by (induction c) (auto simp add: coll_getById_def split: if_splits)

lemma getById_replace:
  "coll_getById key c i = Some e \<Longrightarrow> key r = i \<Longrightarrow>
   coll_getById key (coll_replace key c i r) i = Some r"
  by (induction c) (auto simp add: coll_getById_def)

section \<open>Properties of the inventory service\<close>






lemmas inventory_eval =
  getPosition_def checkAvailability_def getCurrentInventory_def calculateIncoming_def
  calculateOutgoing_def incomingItem_def outgoingItem_def getExpectedDate_def
  orderFallbackDate_def afterByDate_def firstOrUndefined_def truthy_def orString_def orZero_def
  coll_getAll_def coll_getById_def coll_query_def coll_create_def



text \<open>
  Claim C8. The expected date of a pending movement is the first present source in the
  order: the linked load's actual date for the movement type, the load's scheduled date for
  the movement type, the order's end date, the order's start date, today; a source is
  used only when every source before it is absent.
\<close>

theorem expected_date_priority:
  "getExpectedDate today ld ord movementType = expectedDate_priority today ld ord movementType"
  by (cases movementType; cases ld)
     (simp_all add: getExpectedDate_def expectedDate_priority_def orderFallbackDate_def
        split: option.splits)

text \<open>A load with an actual pickup date gives it for a pickup; with no actual delivery
  date its scheduled delivery date is used; with no load the order's end date is used.\<close>

theorem expected_date_priority_witness:
  "getExpectedDate 20000 (Some exLoad) exOrder Pickup = 19999 \<and>
   getExpectedDate 20000 (Some exLoad) exOrder Delivery = 20002 \<and>
   getExpectedDate 20000 None exOrder Delivery = 20010"
  using expected_date_priority [of 20000 "Some exLoad" exOrder Pickup]
    expected_date_priority [of 20000 "Some exLoad" exOrder Delivery]
    expected_date_priority [of 20000 None exOrder Delivery]
  by (simp add: expectedDate_priority_def exLoad_def exOrder_def)

lemmas double_eval =
  doubleAdd_def doubleSub_def roundDouble_def roundMagnitude_def roundHalfEven_def pow2_def
  normUp.simps normDown.simps

text \<open>What \<^verbatim>\<open>setInventoryCount\<close> writes and what the next query adds up.\<close>

lemma setInventoryCount_ledger:
  assumes "setInventoryCount s newId now today showNumber c n loc reason = (s', a)"
  shows "inventoryAdjustments s' = inventoryAdjustments s @ [a] \<and>
         adj_adjustmentType a = Count \<and>
         adj_commodityId a = c \<and>
         adj_locationId a = loc \<and>
         adj_quantity a = doubleSub n (getCurrentInventory_double s c loc) \<and>
         getCurrentInventory_double s' c loc =
           doubleAdd (getCurrentInventory_double s c loc)
             (doubleSub n (getCurrentInventory_double s c loc))"
  using assms
  by (auto simp add: setInventoryCount_def createAdjustment_def getCurrentInventory_double_def
      coll_create_def coll_query_def Let_def)

text \<open>Integers of magnitude below \<open>2 ^ 53\<close> are doubles.\<close>

lemma pow2_pred: "2 * pow2 (e - 1) = pow2 e"
proof (cases "e \<ge> 1")
  case True
  then have "nat e = Suc (nat (e - 1))" by simp
  with True show ?thesis by (simp add: pow2_def)
next
  case False
  then have "nat (- (e - 1)) = Suc (nat (- e))" by simp
  with False show ?thesis by (simp add: pow2_def)
qed

lemma normDown_integral:
  "y \<in> \<int> \<Longrightarrow> fst (normDown y e) \<in> \<int> \<and>
     fst (normDown y e) * pow2 (snd (normDown y e)) = y * pow2 e"
proof (induction y e rule: normDown.induct)
  case (1 y e)
  show ?case
  proof (cases "y < 2 ^ 52 \<and> e > - 1074")
    case True
    have step: "normDown y e = normDown (y * 2) (e - 1)"
      by (subst normDown.simps) (rule if_P[OF True])
    have "y * 2 \<in> \<int>"
      using "1.prems" by simp
    from "1.IH"[OF True this] pow2_pred[of e] show ?thesis
      unfolding step by (simp add: algebra_simps)
  next
    case False
    have stop: "normDown y e = (y, e)"
      by (subst normDown.simps) (rule if_not_P[OF False])
    from "1.prems" show ?thesis
      unfolding stop by simp
  qed
qed

lemma roundHalfEven_of_int: "roundHalfEven (of_int k) = k"
  by (simp add: roundHalfEven_def)

lemma roundMagnitude_of_int:
  assumes "k < 2 ^ 53"
  shows "roundMagnitude (of_int k) = of_int k"
proof -
  have "real_of_int k < real_of_int (2 ^ 53)"
    using assms by (simp only: of_int_less_iff)
  then have "\<not> 2 ^ 53 \<le> real_of_int k"
    by simp
  then have up: "normUp (of_int k) 0 = (of_int k, 0)"
    by (subst normUp.simps) (rule if_not_P)
  obtain y e where d: "normDown (of_int k) 0 = (y, e)"
    by (cases "normDown (of_int k) 0")
  from normDown_integral[of "of_int k" 0] d
  have "y \<in> \<int>" and ye: "y * pow2 e = of_int k"
    by (simp_all add: pow2_def)
  then obtain j where j: "y = of_int j"
    by (auto elim: Ints_cases)
  show ?thesis
    using ye by (simp add: roundMagnitude_def up d j roundHalfEven_of_int)
qed

lemma roundDouble_of_int:
  assumes "\<bar>k\<bar> < 2 ^ 53"
  shows "roundDouble (of_int k) = of_int k"
proof -
  have "k < 2 ^ 53" and "- k < 2 ^ 53"
    using assms by simp_all
  then have "roundMagnitude (of_int k) = of_int k"
    and "roundMagnitude (of_int (- k)) = of_int (- k)"
    by (simp_all only: roundMagnitude_of_int)
  then show ?thesis
    by (simp add: roundDouble_def)
qed

text \<open>
  Claim C7, as the code has it. \<^verbatim>\<open>setInventoryCount(c, N, L)\<close> appends one adjustment
  of type \<^verbatim>\<open>count\<close> for \<open>(c, L)\<close> whose signed quantity is the double difference of
  \<open>N\<close> and the current inventory \<open>S\<close> for \<open>(c, L)\<close>, and \<^verbatim>\<open>getCurrentInventory(c, L)\<close>
  on the resulting store is the double sum of \<open>S\<close> and that difference. This is \<open>N\<close> when
  \<open>N\<close> is a double and the subtraction \<open>N - S\<close> is exact, as it is when \<open>N\<close> and \<open>S\<close> are
  integers and \<open>N\<close> and \<open>N - S\<close> are of magnitude below \<open>2 ^ 53\<close>.
\<close>

theorem set_inventory_count_rounded:
  assumes "setInventoryCount s newId now today showNumber c n loc reason = (s', a)"
  shows "inventoryAdjustments s' = inventoryAdjustments s @ [a] \<and>
         adj_adjustmentType a = Count \<and>
         adj_commodityId a = c \<and>
         adj_locationId a = loc \<and>
         adj_quantity a = doubleSub n (getCurrentInventory_double s c loc) \<and>
         getCurrentInventory_double s' c loc =
           doubleAdd (getCurrentInventory_double s c loc)
             (doubleSub n (getCurrentInventory_double s c loc)) \<and>
         (roundDouble n = n \<and>
          roundDouble (n - getCurrentInventory_double s c loc) = n - getCurrentInventory_double s c loc
          \<longrightarrow> getCurrentInventory_double s' c loc = n) \<and>
         (\<forall>i j. n = of_int i \<and> getCurrentInventory_double s c loc = of_int j \<and>
                \<bar>i\<bar> < 2 ^ 53 \<and> \<bar>i - j\<bar> < 2 ^ 53
          \<longrightarrow> getCurrentInventory_double s' c loc = n)"
proof -
  let ?S = "getCurrentInventory_double s c loc"
  note ledger = setInventoryCount_ledger[OF assms]
  have exact: "getCurrentInventory_double s' c loc = n"
    if "roundDouble n = n" and "roundDouble (n - ?S) = n - ?S"
    using ledger that by (simp add: doubleAdd_def doubleSub_def)
  have ints: "getCurrentInventory_double s' c loc = n"
    if "n = of_int i" and "?S = of_int j" and "\<bar>i\<bar> < 2 ^ 53" and "\<bar>i - j\<bar> < 2 ^ 53" for i j
  proof (rule exact)
    show "roundDouble n = n"
      using that(1,3) by (simp add: roundDouble_of_int)
    have "roundDouble (of_int (i - j)) = of_int (i - j)"
      using that(4) by (rule roundDouble_of_int)
    then show "roundDouble (n - ?S) = n - ?S"
      using that(1,2) by simp
  qed
  from ledger exact ints show ?thesis
    by blast
qed

text \<open>Counting 750 LB of HMS1 where the ledger holds 1000 records a delta of -250, and the
  next query returns 750.\<close>

theorem set_inventory_count_rounded_witness:
  "adj_quantity (snd (setInventoryCount exStore ''adj-2'' ''2024-10-05T09:00:00.000Z'' 20001
      (\<lambda>n. ''750'') ''HMS1'' 750 None None)) = - 250 \<and>
   getCurrentInventory_double (fst (setInventoryCount exStore ''adj-2''
      ''2024-10-05T09:00:00.000Z'' 20001 (\<lambda>n. ''750'') ''HMS1'' 750 None None)) ''HMS1'' None = 750"
proof -
  have ci: "getCurrentInventory_double exStore ''HMS1'' None = 1000"
    by (simp add: getCurrentInventory_double_def coll_query_def truthy_def exStore_def
        exAdjustment_def double_eval)
  have sub: "doubleSub 750 1000 = - 250"
    by (simp add: double_eval)
  have n: "roundDouble 750 = 750" "roundDouble (750 - 1000) = 750 - 1000"
    by (simp_all add: double_eval)
  show ?thesis
    using set_inventory_count_rounded [OF prod.collapse [symmetric],
        where s = exStore and newId = "''adj-2''" and now = "''2024-10-05T09:00:00.000Z''"
          and today = 20001 and showNumber = "\<lambda>n. ''750''" and c = "''HMS1''" and n = 750
          and loc = None and reason = None]
      ci sub n
    by simp
qed

text \<open>Claim C7 as stated fails: with two adjustments of \<^verbatim>\<open>0.1\<close> in the ledger,
  \<^verbatim>\<open>setInventoryCount('HMS1', 0.9)\<close> records \<^verbatim>\<open>0.9 - 0.2\<close>, which rounds, and the next
  query returns \<^verbatim>\<open>0.8999999999999999\<close>, the double below \<^verbatim>\<open>0.9\<close>.\<close>

theorem set_inventory_count_rounding_counterexample:
  "getCurrentInventory_double (fst (setInventoryCount exTenthsStore ''adj-3''
      ''2024-10-05T09:00:00.000Z'' 20001 (\<lambda>n. ''0.9'') ''HMS1'' exNineTenths None None))
     ''HMS1'' None = 2026619832316723 / 2251799813685248 \<and>
   2026619832316723 / 2251799813685248 \<noteq> exNineTenths"
proof -
  have ci: "getCurrentInventory_double exTenthsStore ''HMS1'' None =
            3602879701896397 / 18014398509481984"
    by (simp add: getCurrentInventory_double_def coll_query_def truthy_def exTenthsStore_def
        exStore_def exAdjustment_def exTenth_def double_eval)
  have sub: "doubleSub exNineTenths (3602879701896397 / 18014398509481984) =
             3152519739159347 / 4503599627370496"
    by (simp add: exNineTenths_def double_eval)
  have add: "doubleAdd (3602879701896397 / 18014398509481984)
               (3152519739159347 / 4503599627370496) = 2026619832316723 / 2251799813685248"
    by (simp add: double_eval)
  have "getCurrentInventory_double (fst (setInventoryCount exTenthsStore ''adj-3''
      ''2024-10-05T09:00:00.000Z'' 20001 (\<lambda>n. ''0.9'') ''HMS1'' exNineTenths None None))
     ''HMS1'' None = 2026619832316723 / 2251799813685248"
    using setInventoryCount_ledger [OF prod.collapse [symmetric],
        where s = exTenthsStore and newId = "''adj-3''" and now = "''2024-10-05T09:00:00.000Z''"
          and today = 20001 and showNumber = "\<lambda>n. ''0.9''" and c = "''HMS1''"
          and n = exNineTenths and loc = None and reason = None]
    by (simp add: ci sub add)
  then show ?thesis
    by (simp add: exNineTenths_def)
qed

text \<open>
  Claim C10. For an existing adjustment, \<^verbatim>\<open>updateAdjustment\<close> stores and returns a
  record with the same \<^verbatim>\<open>id\<close> and \<^verbatim>\<open>adjustmentNumber\<close> whatever the updates
  hold for them, \<^verbatim>\<open>updatedAt\<close> set to the current time, and every other field taken
  from the updates where they supply it and from the existing record otherwise.
\<close>

theorem update_adjustment_frame:
  assumes "coll_getById adj_id (inventoryAdjustments s) i = Some existing"
  shows "\<exists>s' updated.
     updateAdjustment s now i updates = (s', Some updated) \<and>
     coll_getById adj_id (inventoryAdjustments s') i = Some updated \<and>
     adj_id updated = adj_id existing \<and>
     adj_adjustmentNumber updated = adj_adjustmentNumber existing \<and>
     adj_updatedAt updated = now \<and>
     adj_commodityId updated = spread (adj_commodityId existing) (up_commodityId updates) \<and>
     adj_commodityCode updated = spread (adj_commodityCode existing) (up_commodityCode updates) \<and>
     adj_commodityName updated = spread (adj_commodityName existing) (up_commodityName updates) \<and>
     adj_locationId updated = spread (adj_locationId existing) (up_locationId updates) \<and>
     adj_locationName updated = spread (adj_locationName existing) (up_locationName updates) \<and>
     adj_adjustmentType updated = spread (adj_adjustmentType existing) (up_adjustmentType updates) \<and>
     adj_quantity updated = spread (adj_quantity existing) (up_quantity updates) \<and>
     adj_unit updated = spread (adj_unit existing) (up_unit updates) \<and>
     adj_reason updated = spread (adj_reason existing) (up_reason updates) \<and>
     adj_adjustmentDate updated = spread (adj_adjustmentDate existing) (up_adjustmentDate updates) \<and>
     adj_createdBy updated = spread (adj_createdBy existing) (up_createdBy updates) \<and>
     adj_createdAt updated = spread (adj_createdAt existing) (up_createdAt updates)"
  using assms getById_key[OF assms] getById_replace[OF assms]
  by (simp add: updateAdjustment_def coll_update_def Let_def)

text \<open>The update of the example keeps \<^verbatim>\<open>adj-1\<close> and \<^verbatim>\<open>ADJ-0001\<close>.\<close>

theorem update_adjustment_frame_witness:
  "\<exists>s' updated.
     updateAdjustment exStore ''2024-10-06T10:00:00.000Z'' ''adj-1'' exUpdates = (s', Some updated) \<and>
     coll_getById adj_id (inventoryAdjustments s') ''adj-1'' = Some updated \<and>
     adj_id updated = ''adj-1'' \<and>
     adj_adjustmentNumber updated = ''ADJ-0001'' \<and>
     adj_updatedAt updated = ''2024-10-06T10:00:00.000Z'' \<and>
     adj_quantity updated = - 25 \<and>
     adj_adjustmentType updated = Damage \<and>
     adj_locationId updated = Some ''yard-2'' \<and>
     adj_commodityId updated = ''HMS1''"
proof -
  have ex: "coll_getById adj_id (inventoryAdjustments exStore) ''adj-1'' = Some exAdjustment"
    by (simp add: coll_getById_def exStore_def exAdjustment_def)
  show ?thesis
    using update_adjustment_frame [OF ex, of "''2024-10-06T10:00:00.000Z''" exUpdates]
    by (simp add: spread_def exUpdates_def exAdjustment_def) blast
qed

section \<open>Properties of the pricing service\<close>

lemma firstOrUndefined_filter: "firstOrUndefined (filter P xs) = find P xs"
  by (induction xs) (simp_all add: firstOrUndefined_def)

lemma find_filter: "find P (filter Q xs) = find (\<lambda>x. Q x \<and> P x) xs"
  by (induction xs) simp_all

lemma find_None_list_ex: "find P xs = None \<longleftrightarrow> \<not> list_ex P xs"
  by (induction xs) simp_all

lemma list_ex_filter: "list_ex P (filter Q xs) = list_ex (\<lambda>x. Q x \<and> P x) xs"
  by (induction xs) auto

lemmas pricing_eval =
  getPrice_def findPriceInGroup_def getDefaultPricingGroup_def getActivePriceListsForDate_def
  sortByEffectiveDateDesc_def coll_getById_def coll_query_def coll_getAll_def coll_create_def
  firstOrUndefined_def truthy_def orString_def

lemmas pricing_data =
  exPricingStore_def exPricingStore2_def exRetiredStore_def exRetiredGroup_def exGroupA_def
  exGroupB_def exGroupS_def exListA_def exListB_def exItemA_def exItemB_def exAccount_def
  exAccount2_def exCopper_def exItemData_def exChangeDirection_def

text \<open>
  Claim C9, as the code has it. \<^verbatim>\<open>getDefaultPricingGroup(d)\<close> returns the first
  group of the store with direction \<open>d\<close> and \<^verbatim>\<open>isDefault = true\<close>; the group's
  \<^verbatim>\<open>isActive\<close> flag is not consulted. It returns \<^verbatim>\<open>undefined\<close> exactly when no
  group with direction \<open>d\<close> is flagged default.
\<close>

theorem default_group_first_default:
  "getDefaultPricingGroup s d =
     find (\<lambda>g. pg_direction g = d \<and> pg_isDefault g) (pricingGroups s) \<and>
   (case getDefaultPricingGroup s d of
      Some g \<Rightarrow> g \<in> set (pricingGroups s) \<and> pg_direction g = d \<and> pg_isDefault g
    | None \<Rightarrow> \<not> (\<exists>g \<in> set (pricingGroups s). pg_direction g = d \<and> pg_isDefault g))"
proof -
  have eq: "getDefaultPricingGroup s d =
     find (\<lambda>g. pg_direction g = d \<and> pg_isDefault g) (pricingGroups s)"
    by (simp add: getDefaultPricingGroup_def coll_query_def firstOrUndefined_filter)
  show ?thesis
    unfolding eq
    by (auto split: option.splits simp add: find_None_iff dest: find_Some_iff[THEN iffD1])
qed

text \<open>In the pricing data the default buy and sell groups are found; with only the
  non-default group in the store there is none.\<close>

theorem default_group_first_default_witness:
  "getDefaultPricingGroup exPricingStore Buy = Some exGroupB \<and>
   getDefaultPricingGroup exPricingStore Sell = Some exGroupS \<and>
   getDefaultPricingGroup (exPricingStore\<lparr> pricingGroups := [exGroupA] \<rparr>) Buy = None"
  using default_group_first_default [of exPricingStore Buy]
    default_group_first_default [of exPricingStore Sell]
    default_group_first_default [of "exPricingStore\<lparr> pricingGroups := [exGroupA] \<rparr>" Buy]
  by (simp add: pricing_data)

text \<open>Claim C9 as stated fails: a default group that is not active is returned.\<close>

theorem default_group_inactive_counterexample:
  "getDefaultPricingGroup exRetiredStore Buy = Some exRetiredGroup \<and>
   pg_isActive exRetiredGroup = False"
  by (simp add: pricing_eval pricing_data)

text \<open>
  Claim C4. For an existing account and commodity: when the account's assigned group for
  the direction yields a price, \<^verbatim>\<open>getPrice\<close> returns that price; when the account has no
  assigned group or the assigned group yields none, and the direction's default group
  yields a price, \<^verbatim>\<open>getPrice\<close> returns the default group's price.
\<close>

theorem get_price_fallback:
  assumes acc: "coll_getById acc_id (accounts s) accountId = Some account"
    and com: "coll_getById cm_id (commodities s) commodityId = Some commodity"
    and asg: "assigned = (if direction = Buy then acc_buyPricingGroupId account
                          else acc_sellPricingGroupId account)"
  shows "(\<forall>gid p. assigned = Some gid \<and> gid \<noteq> [] \<and>
            findPriceInGroup s gid commodity date = Some p \<longrightarrow>
            getPrice s accountId commodityId direction date = Some p) \<and>
         (\<forall>g p. (\<not> truthy assigned \<or>
                  (\<exists>gid. assigned = Some gid \<and> findPriceInGroup s gid commodity date = None)) \<and>
                 getDefaultPricingGroup s direction = Some g \<and>
                 findPriceInGroup s (pg_id g) commodity date = Some p \<longrightarrow>
            getPrice s accountId commodityId direction date = Some p)"
  using acc com asg
  by (auto simp add: getPrice_def Let_def truthy_def orString_def split: option.splits if_splits)

text \<open>The account assigned to the group without prices gets the default group's copper
  price; the account assigned to the default group gets it from its own group.\<close>

theorem get_price_fallback_witness:
  "(\<exists>p. getPrice exPricingStore ''acc-1'' ''CU-BARE'' Buy 19800 = Some p \<and>
        cp_price p = 3.5 \<and> cp_pricingGroupId p = ''grp-b'') \<and>
   (\<exists>p. getPrice exPricingStore ''acc-2'' ''CU-BARE'' Buy 19800 = Some p \<and>
        cp_price p = 3.5 \<and> cp_pricingGroupId p = ''grp-b'')"
proof -
  have acc1: "coll_getById acc_id (accounts exPricingStore) ''acc-1'' = Some exAccount"
    and acc2: "coll_getById acc_id (accounts exPricingStore) ''acc-2'' = Some exAccount2"
    and com: "coll_getById cm_id (commodities exPricingStore) ''CU-BARE'' = Some exCopper"
    by (simp_all add: coll_getById_def pricing_data)
  have a: "findPriceInGroup exPricingStore ''grp-a'' exCopper 19800 = None"
    by (simp add: pricing_eval pricing_data)
  have d: "getDefaultPricingGroup exPricingStore Buy = Some exGroupB"
    by (simp add: pricing_eval pricing_data)
  obtain p where b: "findPriceInGroup exPricingStore ''grp-b'' exCopper 19800 = Some p"
    and p: "cp_price p = 3.5" "cp_pricingGroupId p = ''grp-b''"
    by (simp add: pricing_eval pricing_data)
  have b': "findPriceInGroup exPricingStore (pg_id exGroupB) exCopper 19800 = Some p"
    using b by (simp add: exGroupB_def)
  have "getPrice exPricingStore ''acc-1'' ''CU-BARE'' Buy 19800 = Some p"
    using get_price_fallback [OF acc1 com refl, of Buy 19800] a d b'
    by (simp add: exAccount_def)
  moreover have "getPrice exPricingStore ''acc-2'' ''CU-BARE'' Buy 19800 = Some p"
    using get_price_fallback [OF acc2 com refl, of Buy 19800] b
    by (simp add: exAccount2_def)
  ultimately show ?thesis
    using p by blast
qed

lemma firstPricedList_None:
  "firstPricedList s grp c xs = None \<longleftrightarrow> (\<forall>pl \<in> set xs. itemFor s (pl_id pl) (cm_id c) = None)"
  by (induction xs)
     (auto simp add: itemFor_def coll_query_def find_filter Let_def split: option.splits)

lemma firstPricedList_Some:
  "sorted (map (\<lambda>pl. - pl_effectiveDate pl) xs) \<Longrightarrow> firstPricedList s grp c xs = Some p \<Longrightarrow>
   \<exists>pl \<in> set xs. \<exists>it.
     itemFor s (pl_id pl) (cm_id c) = Some it \<and>
     p = \<lparr> cp_commodityId = cm_id c, cp_commodityName = cm_name c, cp_commodityCode = cm_code c,
           cp_price = pli_price it, cp_unit = pli_unit it, cp_currency = pli_currency it,
           cp_priceListId = pl_id pl, cp_priceListName = pl_name pl,
           cp_pricingGroupId = pg_id grp, cp_pricingGroupName = pg_name grp,
           cp_effectiveDate = pl_effectiveDate pl, cp_expirationDate = pl_expirationDate pl \<rparr> \<and>
     (\<forall>pl' \<in> set xs. itemFor s (pl_id pl') (cm_id c) \<noteq> None \<longrightarrow>
        pl_effectiveDate pl' \<le> pl_effectiveDate pl)"
proof (induction xs)
  case Nil
  then show ?case by simp
next
  case (Cons x xs)
  show ?case
  proof (cases "itemFor s (pl_id x) (cm_id c)")
    case None
    then have rest: "firstPricedList s grp c xs = Some p"
      using Cons.prems(2) by (simp add: itemFor_def coll_query_def find_filter Let_def)
    from Cons.prems(1) have "sorted (map (\<lambda>pl. - pl_effectiveDate pl) xs)" by simp
    from Cons.IH[OF this rest] None show ?thesis by auto
  next
    case (Some it)
    then have p: "p = \<lparr> cp_commodityId = cm_id c, cp_commodityName = cm_name c,
           cp_commodityCode = cm_code c,
           cp_price = pli_price it, cp_unit = pli_unit it, cp_currency = pli_currency it,
           cp_priceListId = pl_id x, cp_priceListName = pl_name x,
           cp_pricingGroupId = pg_id grp, cp_pricingGroupName = pg_name grp,
           cp_effectiveDate = pl_effectiveDate x, cp_expirationDate = pl_expirationDate x \<rparr>"
      using Cons.prems(2) by (simp add: itemFor_def coll_query_def find_filter Let_def)
    from Cons.prems(1) have "\<forall>pl' \<in> set xs. pl_effectiveDate pl' \<le> pl_effectiveDate x"
      by auto
    with Some p show ?thesis by auto
  qed
qed

lemma mem_candidateLists:
  "pl \<in> set (candidateLists s gid date x) \<longleftrightarrow>
   pl \<in> set (sortByEffectiveDateDesc (getActivePriceListsForDate s gid date)) \<and>
   itemFor s (pl_id pl) x \<noteq> None"
  by (auto simp add: sortByEffectiveDateDesc_def getActivePriceListsForDate_def candidateLists_def
      currentlyEffective_def coll_query_def Let_def)

text \<open>
  Claim C5. For an existing pricing group, \<^verbatim>\<open>findPriceInGroup\<close> returns a price taken
  from a price list of the group that is active, effective on or before the date and not
  expired at the date, and that contains an item for the commodity; among all such lists
  the one selected has the greatest effective date, and the price is that of its first item
  for the commodity. It returns \<^verbatim>\<open>null\<close> exactly when there is no such list, so a list
  that is inactive, not yet effective or expired is never selected.
\<close>

theorem most_recent_list_wins:
  assumes grp: "coll_getById pg_id (pricingGroups s) groupId = Some grp"
  shows "case findPriceInGroup s groupId commodity date of
           None \<Rightarrow> candidateLists s groupId date (cm_id commodity) = []
         | Some p \<Rightarrow>
             \<exists>pl \<in> set (candidateLists s groupId date (cm_id commodity)). \<exists>it.
               itemFor s (pl_id pl) (cm_id commodity) = Some it \<and>
               cp_priceListId p = pl_id pl \<and> cp_priceListName p = pl_name pl \<and>
               cp_effectiveDate p = pl_effectiveDate pl \<and>
               cp_expirationDate p = pl_expirationDate pl \<and>
               cp_price p = pli_price it \<and> cp_unit p = pli_unit it \<and>
               cp_currency p = pli_currency it \<and>
               (\<forall>pl' \<in> set (candidateLists s groupId date (cm_id commodity)).
                  pl_effectiveDate pl' \<le> pl_effectiveDate pl)"
proof -
  let ?xs = "sortByEffectiveDateDesc (getActivePriceListsForDate s groupId date)"
  have fp: "findPriceInGroup s groupId commodity date = firstPricedList s grp commodity ?xs"
    using grp by (simp add: findPriceInGroup_def Let_def)
  have srt: "sorted (map (\<lambda>pl. - pl_effectiveDate pl) ?xs)"
    by (simp add: sortByEffectiveDateDesc_def)
  note cand = mem_candidateLists[of _ s groupId date "cm_id commodity"]
  show ?thesis
  proof (cases "firstPricedList s grp commodity ?xs")
    case None
    then have "\<forall>pl \<in> set ?xs. itemFor s (pl_id pl) (cm_id commodity) = None"
      by (simp add: firstPricedList_None)
    then have "\<forall>pl. pl \<notin> set (candidateLists s groupId date (cm_id commodity))"
      by (simp add: cand)
    then have "candidateLists s groupId date (cm_id commodity) = []"
      by (cases "candidateLists s groupId date (cm_id commodity)") auto
    with None fp show ?thesis by simp
  next
    case (Some p)
    from firstPricedList_Some[OF srt Some] obtain pl it where
      pl: "pl \<in> set ?xs" and it: "itemFor s (pl_id pl) (cm_id commodity) = Some it"
      and p: "p = \<lparr> cp_commodityId = cm_id commodity, cp_commodityName = cm_name commodity,
           cp_commodityCode = cm_code commodity,
           cp_price = pli_price it, cp_unit = pli_unit it, cp_currency = pli_currency it,
           cp_priceListId = pl_id pl, cp_priceListName = pl_name pl,
           cp_pricingGroupId = pg_id grp, cp_pricingGroupName = pg_name grp,
           cp_effectiveDate = pl_effectiveDate pl, cp_expirationDate = pl_expirationDate pl \<rparr>"
      and mx: "\<forall>pl' \<in> set ?xs. itemFor s (pl_id pl') (cm_id commodity) \<noteq> None \<longrightarrow>
        pl_effectiveDate pl' \<le> pl_effectiveDate pl"
      by blast
    from pl it have "pl \<in> set (candidateLists s groupId date (cm_id commodity))"
      by (simp add: cand)
    moreover from mx have "\<forall>pl' \<in> set (candidateLists s groupId date (cm_id commodity)).
                  pl_effectiveDate pl' \<le> pl_effectiveDate pl"
      by (simp add: cand)
    ultimately show ?thesis
      using Some fp it p by auto
  qed
qed

text \<open>On 2024-05-07 both price lists of the default buy group are in force and both hold
  copper: the price comes from the list effective 2024-05-01, not from the one effective
  2024-01-01.\<close>

theorem most_recent_list_wins_witness:
  "\<exists>p. findPriceInGroup exPricingStore2 ''grp-b'' exCopper 19850 = Some p \<and>
       cp_priceListId p = ''pl-b'' \<and> cp_effectiveDate p = 19844 \<and> cp_price p = 3.75"
proof -
  have grp: "coll_getById pg_id (pricingGroups exPricingStore2) ''grp-b'' = Some exGroupB"
    by (simp add: coll_getById_def pricing_data)
  have cand: "candidateLists exPricingStore2 ''grp-b'' 19850 (cm_id exCopper) = [exListA, exListB]"
    by (simp add: candidateLists_def currentlyEffective_def itemFor_def pricing_data)
  have itB: "itemFor exPricingStore2 (pl_id exListB) (cm_id exCopper) = Some exItemB"
    by (simp add: itemFor_def pricing_data)
  have dates: "pl_effectiveDate exListA = 19723" "pl_effectiveDate exListB = 19844"
    "pl_id exListB = ''pl-b''" "pli_price exItemB = 3.75"
    by (simp_all add: pricing_data)
  show ?thesis
    using most_recent_list_wins [OF grp, where commodity = exCopper and date = 19850]
      cand itB dates
    by (auto split: option.splits)
qed

lemma conflictingItem_None:
  "find (\<lambda>item. pli_commodityId item = c \<and> notExcluded None item)
     (coll_query (priceListItems s) (\<lambda>item. pli_priceListId item = lid)) = None
   \<longleftrightarrow> \<not> hasItemFor s lid c"
  by (simp add: coll_query_def find_filter notExcluded_def hasItemFor_def find_None_list_ex)

lemma datesOverlap_rangesOverlap:
  "datesOverlap (pl_effectiveDate pl1) (pl_expirationDate pl1)
     (pl_effectiveDate pl2) (pl_expirationDate pl2) = rangesOverlap pl1 pl2"
  by (simp add: datesOverlap_def rangesOverlap_def effectiveEnd_def Let_def)

lemma scanOtherLists_None:
  "scanOtherLists s target tid c None xs = None \<longleftrightarrow>
   \<not> list_ex (\<lambda>other. pl_id other \<noteq> tid \<and> rangesOverlap target other \<and>
                      hasItemFor s (pl_id other) c) xs"
proof (induction xs)
  case Nil
  show ?case by simp
next
  case (Cons x xs)
  show ?case
  proof (cases "find (\<lambda>item. pli_commodityId item = c \<and> notExcluded None item)
     (coll_query (priceListItems s) (\<lambda>item. pli_priceListId item = pl_id x))")
    case None
    then have "\<not> hasItemFor s (pl_id x) c"
      by (simp add: conflictingItem_None)
    with None Cons.IH show ?thesis
      by (simp add: Let_def datesOverlap_rangesOverlap)
  next
    case (Some it)
    then have "hasItemFor s (pl_id x) c"
      using conflictingItem_None[of c s "pl_id x"] by simp
    with Some Cons.IH show ?thesis
      by (simp add: Let_def datesOverlap_rangesOverlap)
  qed
qed

text \<open>
  Claim C2. For an existing target price list, \<^verbatim>\<open>createPriceListItem\<close> throws, leaving
  the store as it is, exactly when some other price list of the same pricing group whose
  date range overlaps the target's (rule \<open>s1 \<le> e2_effective\<close> and \<open>s2 \<le> e1_effective\<close>,
  an absent end being 9999-12-31) already contains an item for the commodity, or the
  target list itself already contains one; otherwise the new item is appended to the
  stored items and returned.
\<close>

theorem create_item_conflict:
  assumes target: "coll_getById pl_id (priceLists s) (pid_priceListId data) = Some target"
  shows "(isl (createPriceListItem s newId createdBy now data) \<longleftrightarrow>
            conflictInOtherList s target (pid_commodityId data) \<or>
            hasItemFor s (pl_id target) (pid_commodityId data)) \<and>
         (\<not> isl (createPriceListItem s newId createdBy now data) \<longrightarrow>
            createPriceListItem s newId createdBy now data =
              Inr (s\<lparr> priceListItems := priceListItems s @
                        [schema_createNewPriceListItem newId createdBy now data] \<rparr>,
                   schema_createNewPriceListItem newId createdBy now data))"
proof -
  have tid: "pl_id target = pid_priceListId data"
    using target by (rule getById_key)
  have scan: "scanOtherLists s target (pid_priceListId data) (pid_commodityId data) None
           (coll_query (priceLists s) (\<lambda>pl. pl_pricingGroupId pl = pl_pricingGroupId target)) = None
         \<longleftrightarrow> \<not> conflictInOtherList s target (pid_commodityId data)"
    unfolding scanOtherLists_None conflictInOtherList_def coll_query_def list_ex_filter tid
    by simp
  have self: "find (notExcluded None) (coll_query (priceListItems s)
                (\<lambda>item. pli_priceListId item = pid_priceListId data \<and>
                        pli_commodityId item = pid_commodityId data)) = None
         \<longleftrightarrow> \<not> hasItemFor s (pl_id target) (pid_commodityId data)"
    by (simp add: find_None_list_ex coll_query_def list_ex_filter notExcluded_def hasItemFor_def tid)
  have v: "valid (validateCommodityUniqueness s (pid_priceListId data) (pid_commodityId data) None)
        \<longleftrightarrow> \<not> (conflictInOtherList s target (pid_commodityId data) \<or>
               hasItemFor s (pl_id target) (pid_commodityId data))"
    using target scan self
    by (auto simp add: validateCommodityUniqueness_def Let_def split: option.splits)
  show ?thesis
    using v by (auto simp add: createPriceListItem_def Let_def coll_create_def)
qed

text \<open>The example of the specification: the list from 2024-05-01 overlaps the list that
  runs to 2024-06-01 and holds copper, so a copper item for it is refused; an item for a
  commodity that neither list holds is stored.\<close>

theorem create_item_conflict_witness:
  "isl (createPriceListItem exPricingStore ''item-c'' ''Current User''
          ''2024-04-20T00:00:00.000Z'' (exItemData ''CU-BARE'')) \<and>
   createPriceListItem exPricingStore ''item-c'' ''Current User''
          ''2024-04-20T00:00:00.000Z'' (exItemData ''AL-6061'') =
     Inr (exPricingStore\<lparr> priceListItems := priceListItems exPricingStore @
            [schema_createNewPriceListItem ''item-c'' ''Current User''
               ''2024-04-20T00:00:00.000Z'' (exItemData ''AL-6061'')] \<rparr>,
          schema_createNewPriceListItem ''item-c'' ''Current User''
            ''2024-04-20T00:00:00.000Z'' (exItemData ''AL-6061''))"
proof -
  have t: "coll_getById pl_id (priceLists exPricingStore) (pid_priceListId (exItemData c)) =
             Some exListB" for c
    by (simp add: coll_getById_def pricing_data)
  have c1: "conflictInOtherList exPricingStore exListB ''CU-BARE''"
    by (simp add: conflictInOtherList_def rangesOverlap_def effectiveEnd_def farFuture_def
        hasItemFor_def pricing_data)
  have c2: "\<not> conflictInOtherList exPricingStore exListB ''AL-6061''"
    "\<not> hasItemFor exPricingStore (pl_id exListB) ''AL-6061''"
    by (simp_all add: conflictInOtherList_def hasItemFor_def pricing_data)
  have ids: "pid_commodityId (exItemData c) = c" for c
    by (simp add: exItemData_def)
  show ?thesis
    using create_item_conflict [OF t [of "''CU-BARE''"], where newId = "''item-c''"
        and createdBy = "''Current User''" and now = "''2024-04-20T00:00:00.000Z''"]
      create_item_conflict [OF t [of "''AL-6061''"], where newId = "''item-c''"
        and createdBy = "''Current User''" and now = "''2024-04-20T00:00:00.000Z''"] c1 c2
    by (simp add: ids)
qed

text \<open>
  Claim C3, at a failing input. The store has one default buy group and one default sell
  group. \<^verbatim>\<open>updatePricingGroup('grp-b', { direction: 'sell' })\<close> moves the default buy
  group to the sell direction without clearing the sell default: afterwards two groups of
  direction sell are flagged default.
\<close>

theorem update_direction_two_defaults:
  "defaultCount exPricingStore Buy = 1 \<and>
   defaultCount exPricingStore Sell = 1 \<and>
   defaultCount (fst (updatePricingGroup exPricingStore ''2024-07-01T00:00:00.000Z'' ''grp-b''
                        exChangeDirection)) Sell = 2"
  by (simp add: defaultCount_def updatePricingGroup_def coll_update_def coll_getById_def
      spread_def Let_def pricing_data)

section \<open>Properties of the position timeline\<close>

lemma setDateNextDay_noDST:
  "tz_dstStart tz = tz_dstEnd tz \<Longrightarrow> setDateNextDay tz t = t + msPerDay"
  by (simp add: setDateNextDay_def utcOfLocal_def localTime_def offsetAtUTC_def offsetAtLocal_def)

lemma toISODate_newDate: "toISODate (newDate d) = d"
  by (simp add: toISODate_def newDate_def msPerDay_def)

lemma newDate_succ: "newDate d + msPerDay = newDate (d + 1)"
  by (simp add: newDate_def algebra_simps)

lemma newDate_le: "newDate a \<le> newDate b \<longleftrightarrow> a \<le> b"
  by (simp add: newDate_def msPerDay_def)

text \<open>In a zone without daylight saving the loop visits every day from the start to the
  end once.\<close>

lemma timelineLoop_dates_noDST:
  assumes "tz_dstStart tz = tz_dstEnd tz"
  shows "map te_date (timelineLoop tz m (newDate b) (newDate a) r) = [a..b]"
proof (induction "nat (b - a + 1)" arbitrary: a r)
  case 0
  then have "\<not> a \<le> b" by simp
  then show ?case
    by (subst timelineLoop.simps) (simp add: newDate_le)
next
  case (Suc n)
  then have ab: "a \<le> b" and n: "n = nat (b - (a + 1) + 1)" by simp_all
  have "[a..b] = a # [a + 1..b]"
    using ab by (simp add: upto_rec1)
  moreover have "map te_date (timelineLoop tz m (newDate b) (newDate (a + 1)) r') = [a + 1..b]" for r'
    using Suc.hyps(1)[OF n] .
  ultimately show ?case
    using ab assms
    by (subst timelineLoop.simps)
       (simp add: newDate_le Let_def toISODate_newDate setDateNextDay_noDST newDate_succ)
qed

text \<open>In every zone each entry's position is the one before it plus the entry's net
  movement, starting from the baseline.\<close>

lemma timelineLoop_running: "runningFrom r (timelineLoop tz m e d r)"
proof (induction tz m e d r rule: timelineLoop.induct)
  case (1 tz m e d r)
  show ?case
  proof (cases "d \<le> e")
    case True
    with "1.IH" show ?thesis
      by (subst timelineLoop.simps) (simp add: Let_def)
  next
    case False
    then show ?thesis
      by (subst timelineLoop.simps) simp
  qed
qed

lemma groupByDate_from:
  "(case foldl (\<lambda>movementsByDate m.
              let existing = (case movementsByDate (mv_expectedDate m) of
                                None \<Rightarrow> [] | Some ms \<Rightarrow> ms)
              in movementsByDate(mv_expectedDate m \<mapsto> existing @ [m])) mp movements d of
      None \<Rightarrow> [] | Some ms \<Rightarrow> ms) =
   (case mp d of None \<Rightarrow> [] | Some ms \<Rightarrow> ms) @ filter (\<lambda>m. mv_expectedDate m = d) movements"
  by (induction movements arbitrary: mp) (simp_all add: Let_def)

text \<open>The movements grouped under a date are the movements expected on it, in order.\<close>

lemma groupByDate_lookup:
  "(case groupByDate movements d of None \<Rightarrow> [] | Some ms \<Rightarrow> ms) =
   filter (\<lambda>m. mv_expectedDate m = d) movements"
  using groupByDate_from [of Map.empty movements d]
  by (simp add: groupByDate_def Let_def)

text \<open>Every entry carries the movements grouped under its date and their incoming and
  outgoing sums; a day without movements has both sums zero.\<close>

lemma timelineLoop_entries:
  "list_all (\<lambda>entry.
       te_movements entry = (case m (te_date entry) of None \<Rightarrow> [] | Some ms \<Rightarrow> ms) \<and>
       te_incoming entry = dayIncoming (te_movements entry) \<and>
       te_outgoing entry = dayOutgoing (te_movements entry))
     (timelineLoop tz m e d r)"
proof (induction tz m e d r rule: timelineLoop.induct)
  case (1 tz m e d r)
  show ?case
  proof (cases "d \<le> e")
    case True
    with "1.IH" show ?thesis
      by (subst timelineLoop.simps) (simp add: Let_def)
  next
    case False
    then show ?thesis
      by (subst timelineLoop.simps) simp
  qed
qed

lemma day_without_movements: "dayIncoming [] = 0 \<and> dayOutgoing [] = 0"
  by (simp add: dayIncoming_def dayOutgoing_def)

lemma getPositionTimeline_entries:
  "list_all (\<lambda>entry.
       te_movements entry =
         filter (\<lambda>m. mv_expectedDate m = te_date entry)
           (getMovements s today c loc (Some startDate) (Some endDate)) \<and>
       te_incoming entry = dayIncoming (te_movements entry) \<and>
       te_outgoing entry = dayOutgoing (te_movements entry))
     (getPositionTimeline s tz today c loc startDate endDate)"
  using timelineLoop_entries
    [of "groupByDate (getMovements s today c loc (Some startDate) (Some endDate))" tz
        "newDate endDate" "newDate startDate" "getCurrentInventory s c loc"]
  by (simp add: getPositionTimeline_def Let_def groupByDate_lookup)

lemma getPositionTimeline_noDST:
  "tz_dstStart tz = tz_dstEnd tz \<Longrightarrow>
   map te_date (getPositionTimeline s tz today c loc startDate endDate) = [startDate..endDate]"
  by (simp add: getPositionTimeline_def Let_def timelineLoop_dates_noDST)

lemma getPositionTimeline_running:
  "runningFrom (getCurrentInventory s c loc)
     (getPositionTimeline s tz today c loc startDate endDate)"
  by (simp add: getPositionTimeline_def Let_def timelineLoop_running)

lemmas timeline_eval =
  getPositionTimeline_def getMovements_def groupByDate_def dayIncoming_def dayOutgoing_def
  newDate_def toISODate_def setDateNextDay_def utcOfLocal_def localTime_def offsetAtUTC_def
  offsetAtLocal_def msPerDay_def msPerHour_def

text \<open>
  Claim C6, at a failing input. The host is on US Eastern time and the timeline is asked
  for 2024-03-09 to 2024-03-12 (days 19791 to 19794), across the start of daylight saving;
  1000 LB are on hand and 500 LB are expected on 2024-03-10. The loop yields 2024-03-10
  twice and never reaches 2024-03-12, and the pending 500 LB are added on both entries of
  2024-03-10: the positions are 1000, 1500, 2000, 2000. On UTC the same call yields the
  four days with positions 1000, 1500, 1500, 1500.
\<close>

theorem timeline_repeats_day_across_dst:
  "map te_date (getPositionTimeline exMarchStore newYork 19790 ''HMS1'' None 19791 19794)
     = [19791, 19792, 19792, 19793] \<and>
   map te_position (getPositionTimeline exMarchStore newYork 19790 ''HMS1'' None 19791 19794)
     = [1000, 1500, 2000, 2000] \<and>
   map te_date (getPositionTimeline exMarchStore utcZone 19790 ''HMS1'' None 19791 19794)
     = [19791, 19792, 19793, 19794] \<and>
   map te_position (getPositionTimeline exMarchStore utcZone 19790 ''HMS1'' None 19791 19794)
     = [1000, 1500, 1500, 1500]"
  by (simp add: timeline_eval inventory_eval exMarchStore_def exStore_def exAdjustment_def
      newYork_def utcZone_def Let_def timelineLoop.simps)

section \<open>Default uniqueness where it holds\<close>

lemma coll_replace_absent:
  "find (\<lambda>x. key x = i) c = None \<Longrightarrow> coll_replace key c i r = c"
  by (induction c) (auto split: if_splits)

lemma fst_coll_update: "fst (coll_update key c i r) = coll_replace key c i r"
  by (simp add: coll_update_def coll_getById_def coll_replace_absent split: option.splits)

lemma coll_replace_map:
  "distinct (map key c) \<Longrightarrow> coll_replace key c i r = map (\<lambda>x. if key x = i then r else x) c"
proof (induction c)
  case Nil
  show ?case by simp
next
  case (Cons x xs)
  show ?case
  proof (cases "key x = i")
    case True
    with Cons.prems have "key x \<notin> key ` set xs" by simp
    with True have "\<forall>y \<in> set xs. key y \<noteq> i" by (metis imageI)
    then have "map (\<lambda>x. if key x = i then r else x) xs = xs"
      by (simp add: map_idI)
    with True show ?thesis by simp
  next
    case False
    with Cons show ?thesis by simp
  qed
qed

lemma replace_count:
  "distinct (map key c) \<Longrightarrow> e \<in> set c \<Longrightarrow> key e = i \<Longrightarrow>
   length (filter Q (map (\<lambda>x. if key x = i then u else x) c)) + (if Q e then 1 else 0) =
   length (filter Q c) + (if Q u then 1 else 0)"
proof (induction c)
  case Nil
  then show ?case by simp
next
  case (Cons x xs)
  show ?case
  proof (cases "x = e")
    case True
    with Cons.prems have "key x \<notin> key ` set xs" and "key x = i" by simp_all
    then have "\<forall>y \<in> set xs. key y \<noteq> i" by (metis imageI)
    then have "map (\<lambda>x. if key x = i then u else x) xs = xs"
      by (simp add: map_idI)
    with True Cons.prems(3) show ?thesis by simp
  next
    case False
    with Cons.prems have e: "e \<in> set xs" and d: "distinct (map key xs)" by auto
    from Cons.prems(1) have "key x \<notin> key ` set xs" by simp
    with e Cons.prems(3) have "key x \<noteq> i" by (metis imageI)
    with Cons.IH[OF d e Cons.prems(3)] show ?thesis by simp
  qed
qed

lemma clear_fold:
  assumes "distinct (map pg_id (pricingGroups st))" and "set gs \<subseteq> set (pricingGroups st)"
    and "distinct gs"
  shows "pricingGroups
           (foldl (\<lambda>st grp.
                     st\<lparr> pricingGroups :=
                           fst (coll_update pg_id (pricingGroups st) (pg_id grp)
                                  (grp\<lparr> pg_isDefault := False, pg_updatedAt := now \<rparr>)) \<rparr>)
              st gs) =
         map (\<lambda>x. if x \<in> set gs then clearedGroup now x else x) (pricingGroups st)"
  using assms
proof (induction gs arbitrary: st)
  case Nil
  show ?case by simp
next
  case (Cons g gs)
  let ?c = "pricingGroups st"
  let ?st' = "st\<lparr> pricingGroups :=
                  fst (coll_update pg_id ?c (pg_id g) (g\<lparr> pg_isDefault := False, pg_updatedAt := now \<rparr>)) \<rparr>"
  have g: "g \<in> set ?c" using Cons.prems(2) by simp
  have same: "\<forall>x \<in> set ?c. (pg_id x = pg_id g) = (x = g)"
    using Cons.prems(1) g by (auto simp add: distinct_map dest: inj_onD)
  have c': "pricingGroups ?st' = map (\<lambda>x. if x = g then clearedGroup now g else x) ?c"
    using same
    by (simp add: fst_coll_update coll_replace_map[OF Cons.prems(1)] clearedGroup_def cong: map_cong)
  have ids: "map pg_id (pricingGroups ?st') = map pg_id ?c"
    unfolding c' by (simp add: clearedGroup_def comp_def cong: map_cong)
  have d': "distinct (map pg_id (pricingGroups ?st'))"
    using Cons.prems(1) by (simp only: ids)
  have sub: "set gs \<subseteq> set (pricingGroups ?st')"
  proof
    fix y assume y: "y \<in> set gs"
    with Cons.prems(2,3) have "y \<in> set ?c" and "y \<noteq> g" by auto
    then show "y \<in> set (pricingGroups ?st')"
      unfolding c' by (auto simp add: image_iff)
  qed
  have dg: "distinct gs" using Cons.prems(3) by simp
  have "pricingGroups
           (foldl (\<lambda>st grp.
                     st\<lparr> pricingGroups :=
                           fst (coll_update pg_id (pricingGroups st) (pg_id grp)
                                  (grp\<lparr> pg_isDefault := False, pg_updatedAt := now \<rparr>)) \<rparr>)
              ?st' gs) =
         map (\<lambda>x. if x \<in> set gs then clearedGroup now x else x) (pricingGroups ?st')"
    by (rule Cons.IH[OF d' sub dg])
  also have "\<dots> = map (\<lambda>x. if x \<in> set (g # gs) then clearedGroup now x else x) ?c"
    unfolding c' by (auto simp add: clearedGroup_def)
  finally show ?case by simp
qed


lemma find_map_key:
  "(\<And>x. key (f x) = key x) \<Longrightarrow>
   find (\<lambda>x. key x = i) (map f xs) = map_option f (find (\<lambda>x. key x = i) xs)"
  by (induction xs) simp_all

lemma getById_mem: "coll_getById key c i = Some e \<Longrightarrow> e \<in> set c"
  by (induction c) (auto simp add: coll_getById_def split: if_splits)

lemma clearDefault_groups:
  assumes "distinctGroupIds s"
  shows "pricingGroups (clearDefaultForDirection s now d) =
         map (\<lambda>g. if pg_direction g = d \<and> pg_isDefault g then clearedGroup now g else g)
           (pricingGroups s)"
proof -
  let ?gs = "filter (\<lambda>g. pg_direction g = d \<and> pg_isDefault g = True) (pricingGroups s)"
  have d: "distinct (map pg_id (pricingGroups s))"
    using assms by (simp add: distinctGroupIds_def)
  then have dg: "distinct ?gs"
    by (simp add: distinct_map)
  have "pricingGroups (clearDefaultForDirection s now d) =
        map (\<lambda>x. if x \<in> set ?gs then clearedGroup now x else x) (pricingGroups s)"
    unfolding clearDefaultForDirection_def Let_def coll_query_def
    by (rule clear_fold[OF d _ dg]) simp
  also have "\<dots> = map (\<lambda>g. if pg_direction g = d \<and> pg_isDefault g then clearedGroup now g else g)
           (pricingGroups s)"
    by (rule map_cong) simp_all
  finally show ?thesis .
qed

lemma clearDefault_ids:
  "distinctGroupIds s \<Longrightarrow>
   map pg_id (pricingGroups (clearDefaultForDirection s now d)) = map pg_id (pricingGroups s)"
  by (simp add: clearDefault_groups clearedGroup_def comp_def cong: map_cong)

lemma clearDefault_distinct:
  "distinctGroupIds s \<Longrightarrow> distinctGroupIds (clearDefaultForDirection s now d)"
  using clearDefault_ids[of s now d] by (simp add: distinctGroupIds_def)

lemma clearDefault_count:
  assumes "distinctGroupIds s"
  shows "defaultCount (clearDefaultForDirection s now d) d' =
         (if d' = d then 0 else defaultCount s d')"
proof -
  have "filter ((\<lambda>g. pg_direction g = d' \<and> pg_isDefault g) \<circ>
                (\<lambda>g. if pg_direction g = d \<and> pg_isDefault g then clearedGroup now g else g))
          (pricingGroups s) =
        filter (\<lambda>g. d' \<noteq> d \<and> pg_direction g = d' \<and> pg_isDefault g) (pricingGroups s)"
    by (rule filter_cong) (auto simp add: clearedGroup_def)
  then show ?thesis
    by (simp add: defaultCount_def clearDefault_groups[OF assms] filter_map)
qed

lemma clearDefault_unique:
  "distinctGroupIds s \<Longrightarrow> defaultUnique s \<Longrightarrow> defaultUnique (clearDefaultForDirection s now d)"
  by (simp add: defaultUnique_def clearDefault_count)

lemma clearDefault_getById:
  assumes "distinctGroupIds s" and "coll_getById pg_id (pricingGroups s) i = Some e"
  shows "coll_getById pg_id (pricingGroups (clearDefaultForDirection s now d)) i =
         Some (if pg_direction e = d \<and> pg_isDefault e then clearedGroup now e else e)"
  using assms(2)
  by (simp add: coll_getById_def clearDefault_groups[OF assms(1)] find_map_key clearedGroup_def)

text \<open>\<^verbatim>\<open>createPricingGroup\<close> with a fresh id keeps the ids distinct and the defaults
  unique.\<close>

lemma createPricingGroup_preserves:
  assumes ids: "distinctGroupIds s" and un: "defaultUnique s"
    and fresh: "newId \<notin> set (map pg_id (pricingGroups s))"
  shows "distinctGroupIds (fst (createPricingGroup s newId createdBy now data)) \<and>
         defaultUnique (fst (createPricingGroup s newId createdBy now data))"
proof (cases "pgd_isDefault data")
  case True
  let ?s1 = "clearDefaultForDirection s now (pgd_direction data)"
  have g: "pricingGroups (fst (createPricingGroup s newId createdBy now data)) =
           pricingGroups ?s1 @ [schema_createPricingGroup newId createdBy now data]"
    using True by (simp add: createPricingGroup_def coll_create_def Let_def)
  have "distinctGroupIds (fst (createPricingGroup s newId createdBy now data))"
    using ids fresh clearDefault_ids[OF ids, of now "pgd_direction data"]
    by (simp add: distinctGroupIds_def g schema_createPricingGroup_def)
  moreover have "defaultCount (fst (createPricingGroup s newId createdBy now data)) d' \<le> 1" for d'
    using un clearDefault_count[OF ids, of now "pgd_direction data" d']
    by (cases d'; cases "pgd_direction data")
       (auto simp add: defaultCount_def defaultUnique_def g schema_createPricingGroup_def)
  ultimately show ?thesis
    by (simp add: defaultUnique_def)
next
  case False
  have g: "pricingGroups (fst (createPricingGroup s newId createdBy now data)) =
           pricingGroups s @ [schema_createPricingGroup newId createdBy now data]"
    using False by (simp add: createPricingGroup_def coll_create_def Let_def)
  show ?thesis
    using ids un fresh False
    by (simp add: distinctGroupIds_def defaultUnique_def defaultCount_def g
        schema_createPricingGroup_def)
qed


text \<open>Replacing the group stored under an id by one of the same id and direction: the
  defaults of that direction do not grow beyond one when the direction was cleared before
  or the replacement is default only if the replaced group was.\<close>

lemma replace_preserves:
  assumes ids: "distinctGroupIds s1" and un: "defaultUnique s1"
    and e: "coll_getById pg_id (pricingGroups s1) i = Some e"
    and u: "pg_id u = i" "pg_direction u = pg_direction e"
    and ok: "defaultCount s1 (pg_direction e) = 0 \<or> (pg_isDefault u \<longrightarrow> pg_isDefault e)"
  shows "distinctGroupIds (s1\<lparr> pricingGroups := fst (coll_update pg_id (pricingGroups s1) i u) \<rparr>) \<and>
         defaultUnique (s1\<lparr> pricingGroups := fst (coll_update pg_id (pricingGroups s1) i u) \<rparr>)"
proof -
  let ?c = "pricingGroups s1"
  let ?c' = "map (\<lambda>x. if pg_id x = i then u else x) ?c"
  have d: "distinct (map pg_id ?c)"
    using ids by (simp add: distinctGroupIds_def)
  have c': "fst (coll_update pg_id ?c i u) = ?c'"
    by (simp add: fst_coll_update coll_replace_map[OF d])
  have mem: "e \<in> set ?c" and key: "pg_id e = i"
    using e by (auto dest: getById_mem getById_key)
  have idmap: "map pg_id ?c' = map pg_id ?c"
    using u(1) by (simp add: comp_def cong: map_cong)
  have dist: "distinct (map pg_id ?c')"
    unfolding idmap by (rule d)
  have cnt: "length (filter (\<lambda>g. pg_direction g = d' \<and> pg_isDefault g) ?c') +
          (if pg_direction e = d' \<and> pg_isDefault e then 1 else 0) =
        length (filter (\<lambda>g. pg_direction g = d' \<and> pg_isDefault g) ?c) +
          (if pg_direction u = d' \<and> pg_isDefault u then 1 else 0)" for d'
    by (rule replace_count[OF d mem key])
  have "length (filter (\<lambda>g. pg_direction g = d' \<and> pg_isDefault g) ?c') \<le> 1" for d'
  proof (cases "d' = pg_direction e")
    case True
    with cnt[of d'] ok un u(2) show ?thesis
      by (cases d') (auto simp add: defaultUnique_def defaultCount_def split: if_splits)
  next
    case False
    with cnt[of d'] un u(2) show ?thesis
      by (cases d') (auto simp add: defaultUnique_def defaultCount_def)
  qed
  then show ?thesis
    using dist by (simp add: distinctGroupIds_def defaultUnique_def defaultCount_def c')
qed

text \<open>\<^verbatim>\<open>updatePricingGroup\<close> keeps the ids distinct and the defaults unique when the
  update does not move the group to another direction.\<close>

lemma updatePricingGroup_preserves:
  assumes ids: "distinctGroupIds s" and un: "defaultUnique s"
    and dir: "pgu_direction data = None \<or>
              (\<exists>e. coll_getById pg_id (pricingGroups s) i = Some e \<and>
                   pgu_direction data = Some (pg_direction e))"
  shows "distinctGroupIds (fst (updatePricingGroup s now i data)) \<and>
         defaultUnique (fst (updatePricingGroup s now i data))"
proof (cases "coll_getById pg_id (pricingGroups s) i")
  case None
  with ids un show ?thesis
    by (simp add: updatePricingGroup_def)
next
  case (Some existing)
  let ?u = "\<lparr> pg_id = i,
              pg_name = spread (pg_name existing) (pgu_name data),
              pg_direction = spread (pg_direction existing) (pgu_direction data),
              pg_description = spread (pg_description existing) (pgu_description data),
              pg_isDefault = spread (pg_isDefault existing) (pgu_isDefault data),
              pg_isActive = spread (pg_isActive existing) (pgu_isActive data),
              pg_createdBy = spread (pg_createdBy existing) (pgu_createdBy data),
              pg_createdAt = spread (pg_createdAt existing) (pgu_createdAt data),
              pg_updatedAt = now \<rparr>"
  have udir: "pg_direction ?u = pg_direction existing"
    using dir Some by (auto simp add: spread_def)
  have uid: "pg_id ?u = i"
    by simp
  have upd: "fst (updatePricingGroup s now i data) =
      (let s1 = (if pgu_isDefault data = Some True \<and> \<not> pg_isDefault existing
                 then clearDefaultForDirection s now (pg_direction existing) else s)
       in s1\<lparr> pricingGroups := fst (coll_update pg_id (pricingGroups s1) i ?u) \<rparr>)"
    using Some by (simp add: updatePricingGroup_def Let_def)
  show ?thesis
  proof (cases "pgu_isDefault data = Some True \<and> \<not> pg_isDefault existing")
    case True
    let ?s1 = "clearDefaultForDirection s now (pg_direction existing)"
    have e1: "coll_getById pg_id (pricingGroups ?s1) i = Some existing"
      using clearDefault_getById[OF ids Some, of now "pg_direction existing"] True by simp
    have zero: "defaultCount ?s1 (pg_direction existing) = 0"
      by (simp add: clearDefault_count[OF ids])
    show ?thesis
      unfolding upd Let_def if_P[OF True]
      by (rule replace_preserves[OF clearDefault_distinct[OF ids] clearDefault_unique[OF ids un]
            e1 uid udir disjI1[OF zero]])
  next
    case False
    then have imp: "pg_isDefault ?u \<longrightarrow> pg_isDefault existing"
      by (cases "pgu_isDefault data") (auto simp add: spread_def)
    show ?thesis
      unfolding upd Let_def if_not_P[OF False]
      by (rule replace_preserves[OF ids un Some uid udir disjI2[OF imp]])
  qed
qed

text \<open>\<^verbatim>\<open>setAsDefault\<close> keeps the ids distinct and the defaults unique.\<close>

lemma setAsDefault_preserves:
  assumes ids: "distinctGroupIds s" and un: "defaultUnique s"
  shows "distinctGroupIds (fst (setAsDefault s now i)) \<and> defaultUnique (fst (setAsDefault s now i))"
proof (cases "coll_getById pg_id (pricingGroups s) i")
  case None
  with ids un show ?thesis
    by (simp add: setAsDefault_def)
next
  case (Some grp)
  have "pgu_direction onlyIsDefaultTrue = None"
    by (simp add: onlyIsDefaultTrue_def)
  then have "distinctGroupIds
          (fst (updatePricingGroup (clearDefaultForDirection s now (pg_direction grp)) now i
                  onlyIsDefaultTrue)) \<and>
        defaultUnique
          (fst (updatePricingGroup (clearDefaultForDirection s now (pg_direction grp)) now i
                  onlyIsDefaultTrue))"
    by (intro updatePricingGroup_preserves clearDefault_distinct[OF ids]
        clearDefault_unique[OF ids un]) simp
  with Some show ?thesis
    by (simp add: setAsDefault_def)
qed

end
